theory Spec2Isabelle
  imports Complex_Main "HOL-Library.Word" "HOL-Library.Multiset"
begin

unbundle bit_operations_syntax

section \<open>Data model\<close>

text \<open>
  The structures of \<^verbatim>\<open>bsdf.h\<close>, \<^verbatim>\<open>bsdf_m.h\<close> and \<^verbatim>\<open>bsdf_t.h\<close>, restricted to the
  fields that \<^verbatim>\<open>checkBSDF.c\<close> reads.

  \<^item> \<^verbatim>\<open>int\<close> flags and side arguments are 32-bit words.
  \<^item> \<^verbatim>\<open>double\<close> and \<^verbatim>\<open>float\<close> values are reals. \<^verbatim>\<open>checkReciprocity\<close> is given in
    two forms: with the arithmetic of the reals (\<open>test_pair\<close> to \<open>checkReciprocity\<close>),
    and with the result of every floating-point operation rounded by a function \<open>R\<close>
    (\<open>test_pair_dbl\<close> to \<open>checkReciprocity_dbl\<close>), where \<open>R = rnd64\<close> is the
    rounding of IEEE binary64, nearest with ties to even. What depends on the
    rounding of sums and quotients (the mean among the statistics) is stated of the
    second form. Infinities, NaN and subnormal numbers are outside the model.
  \<^item> The bin counts \<^verbatim>\<open>ninc\<close>, \<^verbatim>\<open>nout\<close> and the counter \<^verbatim>\<open>ntested\<close> are natural
    numbers: a matrix holds \<^verbatim>\<open>ninc*nout\<close> floats in memory. Negative counts and a
    counter that passes \<^verbatim>\<open>INT_MAX\<close> are outside the model.
  \<^item> A pointer that may be \<^verbatim>\<open>NULL\<close> is an \<open>option\<close>.
\<close>

type_synonym cint = "32 word"

type_synonym FVECT = "real \<times> real \<times> real"

record C_COLOR =
  cx :: real
  cy :: real

record SDValue =
  cieY :: real
  spec :: C_COLOR

text \<open>\<^verbatim>\<open>SDMat\<close>: only the counts are read directly and the pointer \<^verbatim>\<open>chroma\<close> is only
  compared with \<^verbatim>\<open>NULL\<close>; the table and the basis functions are reached through the
  accessor macros.\<close>

record SDMat =
  ninc :: nat
  nout :: nat
  chroma :: "nat list option"

record SDNode =
  ndim :: int

text \<open>\<^verbatim>\<open>SDTre\<close>: \<^verbatim>\<open>stc\<close> is an array of node pointers, indexed from 0.\<close>

record SDTre =
  stc :: "nat \<Rightarrow> SDNode option"

text \<open>The function pointer \<^verbatim>\<open>func\<close> of a component is only ever compared with
  \<^verbatim>\<open>&SDhandleMtx\<close> and \<^verbatim>\<open>&SDhandleTre\<close>.\<close>

datatype SDFunc = SDhandleMtx | SDhandleTre | SDhandleOther

text \<open>What the untyped pointer \<^verbatim>\<open>dist\<close> of a component points to.\<close>

datatype SDdist = MtxData SDMat | TreData SDTre | OtherData

record SDComponent =
  func :: SDFunc
  dist_ptr :: SDdist

text \<open>\<^verbatim>\<open>SDSpectralDF\<close> ends in the array \<^verbatim>\<open>SDComponent comp[1]\<close> that extends the
  struct, so \<^verbatim>\<open>comp[0]\<close> always exists; only that element is read.\<close>

record SDSpectralDF =
  minProjSA :: real
  maxHemi :: real
  comp0 :: SDComponent

record SDData =
  rf :: "SDSpectralDF option"
  rb :: "SDSpectralDF option"
  tf :: "SDSpectralDF option"
  tb :: "SDSpectralDF option"

definition F_IN_COLOR :: cint where "F_IN_COLOR = 0x1"
definition F_ISOTROPIC :: cint where "F_ISOTROPIC = 0x2"
definition F_MATRIX :: cint where "F_MATRIX = 0x4"
definition F_TTREE :: cint where "F_TTREE = 0x8"

text \<open>Reading an object through a pointer of another type, or through \<^verbatim>\<open>NULL\<close>, has
  no defined result in C; the model returns the fault instead of a value.\<close>

datatype fault = BadCast | NullDeref

section \<open>getBSDFtype\<close>

text \<open>The argument \<open>flags\<close> is the pointer \<^verbatim>\<open>int *flags\<close>: \<open>None\<close> for \<^verbatim>\<open>NULL\<close>,
  \<open>Some v\<close> for a pointer to an \<^verbatim>\<open>int\<close> holding \<open>v\<close>. The result pairs the returned
  string with the final content of \<^verbatim>\<open>*flags\<close>.\<close>

definition klems_name :: "nat \<Rightarrow> string" where
  "klems_name n =
     (if n = 145 then ''Klems_Full''
      else if n = 73 then ''Klems_Half''
      else if n = 41 then ''Klems_Quarter''
      else ''Unknown_Matrix'')"

definition getBSDFtype :: "SDData \<Rightarrow> cint option \<Rightarrow> fault + (string \<times> cint option)" where
  "getBSDFtype bsdf flags =
     (let df = tb bsdf;
          flags = map_option (\<lambda>_. 0) flags;
          df = (if df = None then tf bsdf else df);
          df = (if df = None then rf bsdf else df);
          df = (if df = None then rb bsdf else df)
      in case df of
           None \<Rightarrow> Inr (''Pure_Lambertian'', flags)
         | Some d \<Rightarrow>
             if func (comp0 d) = SDhandleMtx then
               (case dist_ptr (comp0 d) of
                  MtxData m \<Rightarrow>
                    let flags = map_option (\<lambda>f. f OR F_MATRIX) flags;
                        flags = map_option
                          (\<lambda>f. f OR F_IN_COLOR * of_bool (chroma m \<noteq> None)) flags
                    in Inr (klems_name (ninc m), flags)
                | _ \<Rightarrow> Inl BadCast)
             else if func (comp0 d) = SDhandleTre then
               (case dist_ptr (comp0 d) of
                  TreData t \<Rightarrow>
                    let flags = map_option (\<lambda>f. f OR F_TTREE) flags;
                        flags = map_option
                          (\<lambda>f. f OR F_IN_COLOR * of_bool (stc t 1 \<noteq> None)) flags
                    in (case stc t 0 of
                          None \<Rightarrow> Inl NullDeref
                        | Some n \<Rightarrow>
                            if ndim n = 4 then Inr (''Anisotropic_Tensor_Tree'', flags)
                            else if ndim n = 3 then
                              Inr (''Isotropic_Tensor_Tree'',
                                   map_option (\<lambda>f. f OR F_ISOTROPIC) flags)
                            else Inr (''Unknown_Tensor_Tree'', flags))
                | _ \<Rightarrow> Inl BadCast)
             else Inr (''Unknown'', flags))"

section \<open>Printed output\<close>

text \<open>A line written with \<^verbatim>\<open>printf\<close> or \<^verbatim>\<open>puts\<close> is the sequence of its fields: the
  literal text and \<^verbatim>\<open>%s\<close> arguments as \<open>Txt\<close>, each number formatted by a \<^verbatim>\<open>%f\<close>
  conversion as \<open>Num\<close> (the value handed to \<^verbatim>\<open>printf\<close>, before it is rounded to
  the printed digits). Tabs, blanks and newlines are left out.\<close>

datatype field = Txt string | Num real

type_synonym line = "field list"

section \<open>detailComponent\<close>


section \<open>checkReciprocity\<close>

text \<open>
  The parts of the BSDF library that \<^verbatim>\<open>checkReciprocity\<close> calls and whose code is in
  other files (\<^verbatim>\<open>fvect.h\<close>, \<^verbatim>\<open>bsdf_m.h\<close>, \<^verbatim>\<open>bsdf.c\<close>) are parameters of the model:

  \<^item> the constants \<^verbatim>\<open>FTINY\<close> and \<^verbatim>\<open>FHUGE\<close>;
  \<^item> \<^verbatim>\<open>mBSDF_incvec(v,b,i)\<close> and \<^verbatim>\<open>mBSDF_outvec(v,b,o)\<close>, which return 0 on failure
    and otherwise write the direction to \<^verbatim>\<open>v\<close>: \<open>None\<close> or \<open>Some v\<close>;
  \<^item> \<^verbatim>\<open>mBSDF_value(b,o,i)\<close>;
  \<^item> \<^verbatim>\<open>SDevalBSDF(value, inVec, outVec, sd)\<close>, which returns an error code and
    writes \<^verbatim>\<open>*value\<close>: the pair of both. Its first direction is the incoming
    direction of the query and its second the outgoing one, as the specification
    describes the call of line 113;
  \<^item> \<^verbatim>\<open>SDreportError(ec, fp)\<close>, which writes to \<^verbatim>\<open>stderr\<close> and returns an error
    code, tested for being nonzero: a predicate on the code.
\<close>

record 'e bsdf_lib =
  FTINY :: real
  FHUGE :: real
  mBSDF_incvec :: "SDMat \<Rightarrow> real \<Rightarrow> FVECT option"
  mBSDF_outvec :: "SDMat \<Rightarrow> real \<Rightarrow> FVECT option"
  mBSDF_value :: "SDMat \<Rightarrow> nat \<Rightarrow> nat \<Rightarrow> real"
  SDevalBSDF :: "FVECT \<Rightarrow> FVECT \<Rightarrow> SDData \<Rightarrow> 'e \<times> SDValue"
  SDreportError :: "'e \<Rightarrow> bool"

text \<open>A call of \<^verbatim>\<open>SDevalBSDF\<close>: its arguments \<^verbatim>\<open>inVec\<close> and \<^verbatim>\<open>outVec\<close>, in this
  order.\<close>

type_synonym query = "FVECT \<times> FVECT"

text \<open>The local variables of \<^verbatim>\<open>checkReciprocity\<close> that the loops update. The field
  \<open>asked\<close> is not a variable of the program: it records the calls of \<^verbatim>\<open>SDevalBSDF\<close>
  made so far, oldest first.\<close>

record locals =
  emin :: real
  emax :: real
  esum :: real
  ntested :: nat
  asked :: "query list"

text \<open>Lines 110 to 119, the part of the inner loop's body after both directions have
  been reconstructed. \<open>Inl\<close> is the \<^verbatim>\<open>return\<close> of line 114 (with the calls made),
  \<open>Inr\<close> the end of the iteration, reached by \<^verbatim>\<open>continue\<close> or by falling through.\<close>

definition test_pair ::
  "'e bsdf_lib \<Rightarrow> SDMat \<Rightarrow> SDData \<Rightarrow> FVECT \<Rightarrow> FVECT \<Rightarrow> nat \<Rightarrow> nat \<Rightarrow> locals
     \<Rightarrow> query list + locals" where
  "test_pair L m bsdf vin vout i ob s =
     (let rerr = mBSDF_value L m ob i in
      if rerr \<le> FTINY L then Inr s
      else
        let (ec, vrev) = SDevalBSDF L vout vin bsdf;
            s = s\<lparr>asked := asked s @ [(vout, vin)]\<rparr>
        in if SDreportError L ec then Inl (asked s)
           else
             let rerr = 100 * \<bar>rerr - cieY vrev\<bar> / rerr;
                 s = (if rerr < emin s then s\<lparr>emin := rerr\<rparr> else s);
                 s = (if rerr > emax s then s\<lparr>emax := rerr\<rparr> else s);
                 s = s\<lparr>esum := esum s + rerr\<rparr>
             in Inr (s\<lparr>ntested := Suc (ntested s)\<rparr>))"

text \<open>The inner loop \<^verbatim>\<open>while (o--)\<close>; the variable \<^verbatim>\<open>o\<close> of the program is \<open>ob\<close>
  here. The last numeric argument is its value when the loop condition is tested.\<close>

fun out_loop ::
  "'e bsdf_lib \<Rightarrow> SDMat \<Rightarrow> SDData \<Rightarrow> FVECT \<Rightarrow> nat \<Rightarrow> nat \<Rightarrow> locals
     \<Rightarrow> query list + locals" where
  "out_loop L m bsdf vin i 0 s = Inr s"
| "out_loop L m bsdf vin i (Suc ob) s =
     (case mBSDF_outvec L m (real ob + 0.5) of
        None \<Rightarrow> out_loop L m bsdf vin i ob s
      | Some vout \<Rightarrow>
          (case test_pair L m bsdf vin vout i ob s of
             Inl r \<Rightarrow> Inl r
           | Inr s' \<Rightarrow> out_loop L m bsdf vin i ob s'))"

text \<open>The outer loop \<^verbatim>\<open>while (i--)\<close>.\<close>

fun inc_loop ::
  "'e bsdf_lib \<Rightarrow> SDMat \<Rightarrow> SDData \<Rightarrow> nat \<Rightarrow> locals \<Rightarrow> query list + locals" where
  "inc_loop L m bsdf 0 s = Inr s"
| "inc_loop L m bsdf (Suc i) s =
     (case mBSDF_incvec L m (real i + 0.5) of
        None \<Rightarrow> inc_loop L m bsdf i s
      | Some vin \<Rightarrow>
          (case out_loop L m bsdf vin i (nout m) s of
             Inl r \<Rightarrow> Inl r
           | Inr s' \<Rightarrow> inc_loop L m bsdf i s'))"

text \<open>The initial values of line 87 and 88.\<close>

definition init_locals :: "'e bsdf_lib \<Rightarrow> locals" where
  "init_locals L = \<lparr>emin = FHUGE L, emax = 0, esum = 0, ntested = 0, asked = []\<rparr>"

text \<open>The result of a call: the lines written to \<^verbatim>\<open>stdout\<close> and the calls of
  \<^verbatim>\<open>SDevalBSDF\<close> made.\<close>

type_synonym outcome = "line list \<times> query list"

text \<open>The label \<^verbatim>\<open>nothing2do\<close>, line 129.\<close>

definition nothing2do :: "string \<Rightarrow> line" where
  "nothing2do nm = [Txt nm, Txt ''0'', Txt ''0'', Txt ''0'']"

text \<open>Lines 124 to 129, after the loops.\<close>

definition report :: "string \<Rightarrow> query list + locals \<Rightarrow> outcome" where
  "report nm r =
     (case r of
        Inl qs \<Rightarrow> ([], qs)
      | Inr s \<Rightarrow>
          if ntested s \<noteq> 0 then
            ([[Txt nm, Num (emin s), Num (esum s / real (ntested s)), Num (emax s)]], asked s)
          else ([nothing2do nm], asked s))"

text \<open>Lines 97 to 129, with \<^verbatim>\<open>df\<close> chosen. The cast of line 98 reads the first
  component's data as an \<^verbatim>\<open>SDMat\<close>.\<close>

definition check_df ::
  "'e bsdf_lib \<Rightarrow> string \<Rightarrow> SDData \<Rightarrow> cint \<Rightarrow> SDSpectralDF \<Rightarrow> fault + outcome" where
  "check_df L nm bsdf fl df =
     (if fl AND F_MATRIX \<noteq> 0 then
        (case dist_ptr (comp0 df) of
           MtxData m \<Rightarrow> Inr (report nm (inc_loop L m bsdf (ninc m) (init_locals L)))
         | _ \<Rightarrow> Inl BadCast)
      else Inr (report nm (Inr (init_locals L))))"

definition checkReciprocity ::
  "'e bsdf_lib \<Rightarrow> string \<Rightarrow> cint \<Rightarrow> cint \<Rightarrow> SDData \<Rightarrow> cint \<Rightarrow> fault + outcome" where
  "checkReciprocity L nm side1 side2 bsdf fl =
     (let df = tf bsdf in
      if side1 = side2 then
        (let df = (if 0 < sint side1 then rf bsdf else rb bsdf) in
         case df of
           None \<Rightarrow> Inr ([nothing2do nm], [])
         | Some d \<Rightarrow> check_df L nm bsdf fl d)
      else if tf bsdf = None \<or> tb bsdf = None then Inr ([nothing2do nm], [])
      else
        (case df of
           None \<Rightarrow> Inr ([nothing2do nm], [])
         | Some d \<Rightarrow> check_df L nm bsdf fl d))"

section \<open>Vocabulary of the properties\<close>

text \<open>The slot that \<^verbatim>\<open>getBSDFtype\<close> looks at: the first one present among
  \<^verbatim>\<open>tb\<close>, \<^verbatim>\<open>tf\<close>, \<^verbatim>\<open>rf\<close>, \<^verbatim>\<open>rb\<close>.\<close>

definition first_slot :: "SDData \<Rightarrow> SDSpectralDF option" where
  "first_slot bsdf =
     (case tb bsdf of
        Some d \<Rightarrow> Some d
      | None \<Rightarrow>
          (case tf bsdf of
             Some d \<Rightarrow> Some d
           | None \<Rightarrow> (case rf bsdf of Some d \<Rightarrow> Some d | None \<Rightarrow> rb bsdf)))"

text \<open>The slot a reciprocity check works on, \<open>None\<close> when the check has nothing to
  do: the reflection slot of the side when both sides are the same, \<^verbatim>\<open>tf\<close> when they
  differ and both transmission slots are present.\<close>

definition operative :: "SDData \<Rightarrow> cint \<Rightarrow> cint \<Rightarrow> SDSpectralDF option" where
  "operative bsdf side1 side2 =
     (if side1 = side2 then (if 0 < sint side1 then rf bsdf else rb bsdf)
      else if tf bsdf = None \<or> tb bsdf = None then None
      else tf bsdf)"

text \<open>The bin pairs \<open>(i, ob)\<close> in the order of the two loops: \<open>i\<close> from \<open>ninc - 1\<close> down
  to 0 and, for each \<open>i\<close>, \<open>ob\<close> from \<open>nout - 1\<close> down to 0.\<close>

definition bin_pairs :: "SDMat \<Rightarrow> (nat \<times> nat) list" where
  "bin_pairs m =
     concat (map (\<lambda>i. map (\<lambda>ob. (i, ob)) (rev [0..<nout m])) (rev [0..<ninc m]))"

text \<open>What the loops do for one bin pair (lines 105 and 108 to 119), and for a list of
  bin pairs visited in the order of the list.\<close>

definition visit ::
  "'e bsdf_lib \<Rightarrow> SDMat \<Rightarrow> SDData \<Rightarrow> nat \<times> nat \<Rightarrow> locals \<Rightarrow> query list + locals" where
  "visit L m bsdf p s =
     (case mBSDF_incvec L m (real (fst p) + 0.5) of
        None \<Rightarrow> Inr s
      | Some vin \<Rightarrow>
          (case mBSDF_outvec L m (real (snd p) + 0.5) of
             None \<Rightarrow> Inr s
           | Some vout \<Rightarrow> test_pair L m bsdf vin vout (fst p) (snd p) s))"

fun visit_all ::
  "'e bsdf_lib \<Rightarrow> SDMat \<Rightarrow> SDData \<Rightarrow> (nat \<times> nat) list \<Rightarrow> locals
     \<Rightarrow> query list + locals" where
  "visit_all L m bsdf [] s = Inr s"
| "visit_all L m bsdf (p # ps) s =
     (case visit L m bsdf p s of
        Inl r \<Rightarrow> Inl r
      | Inr s' \<Rightarrow> visit_all L m bsdf ps s')"

text \<open>A tested pair: a bin pair whose two directions can be reconstructed and whose
  forward value is above \<^verbatim>\<open>FTINY\<close>, with the two directions.\<close>

record tested =
  t_i :: nat
  t_o :: nat
  t_vin :: FVECT
  t_vout :: FVECT

definition sample :: "'e bsdf_lib \<Rightarrow> SDMat \<Rightarrow> nat \<times> nat \<Rightarrow> tested option" where
  "sample L m p =
     (case mBSDF_incvec L m (real (fst p) + 0.5) of
        None \<Rightarrow> None
      | Some vin \<Rightarrow>
          (case mBSDF_outvec L m (real (snd p) + 0.5) of
             None \<Rightarrow> None
           | Some vout \<Rightarrow>
               if mBSDF_value L m (snd p) (fst p) \<le> FTINY L then None
               else Some \<lparr>t_i = fst p, t_o = snd p, t_vin = vin, t_vout = vout\<rparr>))"

text \<open>The tested pairs among a list of bin pairs, in the order of the list.\<close>

fun tested_pairs :: "'e bsdf_lib \<Rightarrow> SDMat \<Rightarrow> (nat \<times> nat) list \<Rightarrow> tested list" where
  "tested_pairs L m [] = []"
| "tested_pairs L m (p # ps) =
     (case sample L m p of
        None \<Rightarrow> tested_pairs L m ps
      | Some t \<Rightarrow> t # tested_pairs L m ps)"

text \<open>The forward value of a tested pair, the reversed direction pair (outgoing
  direction first), the evaluation at the reversed pair, whether it fails, and the
  relative error in percent.\<close>

definition forward :: "'e bsdf_lib \<Rightarrow> SDMat \<Rightarrow> tested \<Rightarrow> real" where
  "forward L m t = mBSDF_value L m (t_o t) (t_i t)"

definition reversed :: "tested \<Rightarrow> query" where
  "reversed t = (t_vout t, t_vin t)"

definition reverse_eval :: "'e bsdf_lib \<Rightarrow> SDData \<Rightarrow> tested \<Rightarrow> 'e \<times> SDValue" where
  "reverse_eval L bsdf t = SDevalBSDF L (fst (reversed t)) (snd (reversed t)) bsdf"

definition fails :: "'e bsdf_lib \<Rightarrow> SDData \<Rightarrow> tested \<Rightarrow> bool" where
  "fails L bsdf t = SDreportError L (fst (reverse_eval L bsdf t))"

definition relerr :: "'e bsdf_lib \<Rightarrow> SDMat \<Rightarrow> SDData \<Rightarrow> tested \<Rightarrow> real" where
  "relerr L m bsdf t =
     100 * \<bar>forward L m t - cieY (snd (reverse_eval L bsdf t))\<bar> / forward L m t"

text \<open>The effect of one tested pair on the local variables, and of a list of them.\<close>

definition add_err :: "real \<Rightarrow> query \<Rightarrow> locals \<Rightarrow> locals" where
  "add_err e q s =
     \<lparr>emin = min e (emin s), emax = max e (emax s), esum = esum s + e,
      ntested = Suc (ntested s), asked = asked s @ [q]\<rparr>"

definition step ::
  "'e bsdf_lib \<Rightarrow> SDMat \<Rightarrow> SDData \<Rightarrow> tested \<Rightarrow> locals \<Rightarrow> query list + locals" where
  "step L m bsdf t s =
     (if fails L bsdf t then Inl (asked s @ [reversed t])
      else Inr (add_err (relerr L m bsdf t) (reversed t) s))"

fun run ::
  "'e bsdf_lib \<Rightarrow> SDMat \<Rightarrow> SDData \<Rightarrow> tested list \<Rightarrow> locals \<Rightarrow> query list + locals" where
  "run L m bsdf [] s = Inr s"
| "run L m bsdf (t # ts) s =
     (case step L m bsdf t s of Inl r \<Rightarrow> Inl r | Inr s' \<Rightarrow> run L m bsdf ts s')"

text \<open>The elements of a list up to and including the first one that satisfies \<open>f\<close>.\<close>

fun upto_fail :: "('a \<Rightarrow> bool) \<Rightarrow> 'a list \<Rightarrow> 'a list" where
  "upto_fail f [] = []"
| "upto_fail f (t # ts) = (if f t then [t] else t # upto_fail f ts)"

section \<open>Double precision\<close>

text \<open>
  Rounding to the nearest integer, ties to the even one.
\<close>

definition rne :: "real \<Rightarrow> int" where
  "rne x =
     (let n = \<lfloor>x\<rfloor>; d = x - of_int n
      in if d < 1 / 2 then n
         else if 1 / 2 < d then n + 1
         else if even n then n else n + 1)"

text \<open>
  A positive real \<open>x\<close> is brought into the interval from \<open>2^52\<close> (included) to \<open>2^53\<close>
  (excluded) by halving or doubling, \<open>e\<close> counting the halvings; its significand of 53
  bits is the nearest integer there. The 1100 steps allowed reach every \<open>x\<close> from
  \<open>2^-1048\<close> up to \<open>2^1153\<close>, which covers the normal numbers of binary64; the exponent
  is not bounded otherwise, so that overflow and gradual underflow are not modelled.
\<close>

fun scale :: "nat \<Rightarrow> real \<Rightarrow> int \<Rightarrow> real \<times> int" where
  "scale 0 x e = (x, e)"
| "scale (Suc k) x e =
     (if 2 ^ 53 \<le> x then scale k (x / 2) (e + 1)
      else if x < 2 ^ 52 then scale k (2 * x) (e - 1)
      else (x, e))"

definition rnd_pos :: "real \<Rightarrow> real" where
  "rnd_pos x =
     (let (y, e) = scale 1100 x 0
      in if 0 \<le> e then of_int (rne y) * 2 ^ nat e else of_int (rne y) / 2 ^ nat (- e))"

definition rnd64 :: "real \<Rightarrow> real" where
  "rnd64 x = (if x = 0 then 0 else if x < 0 then - rnd_pos (- x) else rnd_pos x)"

text \<open>
  What \<^verbatim>\<open>printf\<close> writes for \<^verbatim>\<open>%.1f\<close>: the decimal with one digit after the point that
  is nearest to the value of the double, ties to even. \<open>printf_1f x\<close> is that decimal
  in tenths: \<open>639\<close> stands for the output \<^verbatim>\<open>63.9\<close>.
\<close>

definition printf_1f :: "real \<Rightarrow> int" where
  "printf_1f x = rne (10 * x)"

text \<open>
  A rounding function that never turns a non-negative number into a negative one.
\<close>

definition nonneg_rounding :: "(real \<Rightarrow> real) \<Rightarrow> bool" where
  "nonneg_rounding R \<longleftrightarrow> (\<forall>x. 0 \<le> x \<longrightarrow> 0 \<le> R x)"

section \<open>checkReciprocity in double precision\<close>

text \<open>
  The same lines of the program as above, with the result of each floating-point
  operation rounded by \<open>R\<close>. Line 115 is
  \<^verbatim>\<open>rerr = 100.*fabs(rerr - vrev.cieY)/rerr\<close>: a difference, a product (of \<^verbatim>\<open>100.\<close>
  and the absolute value, which is exact) and a quotient, in this order. Line 118 is
  the sum \<^verbatim>\<open>esum += rerr\<close>, and line 125 the quotient \<^verbatim>\<open>esum/(double)ntested\<close>, the
  conversion of the counter being exact. Comparisons and assignments do not round.
\<close>

definition test_pair_dbl ::
  "(real \<Rightarrow> real) \<Rightarrow> 'e bsdf_lib \<Rightarrow> SDMat \<Rightarrow> SDData \<Rightarrow> FVECT \<Rightarrow> FVECT \<Rightarrow> nat \<Rightarrow> nat
     \<Rightarrow> locals \<Rightarrow> query list + locals" where
  "test_pair_dbl R L m bsdf vin vout i ob s =
     (let rerr = mBSDF_value L m ob i in
      if rerr \<le> FTINY L then Inr s
      else
        let (ec, vrev) = SDevalBSDF L vout vin bsdf;
            s = s\<lparr>asked := asked s @ [(vout, vin)]\<rparr>
        in if SDreportError L ec then Inl (asked s)
           else
             let rerr = R (R (100 * \<bar>R (rerr - cieY vrev)\<bar>) / rerr);
                 s = (if rerr < emin s then s\<lparr>emin := rerr\<rparr> else s);
                 s = (if rerr > emax s then s\<lparr>emax := rerr\<rparr> else s);
                 s = s\<lparr>esum := R (esum s + rerr)\<rparr>
             in Inr (s\<lparr>ntested := Suc (ntested s)\<rparr>))"

fun out_loop_dbl ::
  "(real \<Rightarrow> real) \<Rightarrow> 'e bsdf_lib \<Rightarrow> SDMat \<Rightarrow> SDData \<Rightarrow> FVECT \<Rightarrow> nat \<Rightarrow> nat \<Rightarrow> locals
     \<Rightarrow> query list + locals" where
  "out_loop_dbl R L m bsdf vin i 0 s = Inr s"
| "out_loop_dbl R L m bsdf vin i (Suc ob) s =
     (case mBSDF_outvec L m (real ob + 0.5) of
        None \<Rightarrow> out_loop_dbl R L m bsdf vin i ob s
      | Some vout \<Rightarrow>
          (case test_pair_dbl R L m bsdf vin vout i ob s of
             Inl r \<Rightarrow> Inl r
           | Inr s' \<Rightarrow> out_loop_dbl R L m bsdf vin i ob s'))"

fun inc_loop_dbl ::
  "(real \<Rightarrow> real) \<Rightarrow> 'e bsdf_lib \<Rightarrow> SDMat \<Rightarrow> SDData \<Rightarrow> nat \<Rightarrow> locals
     \<Rightarrow> query list + locals" where
  "inc_loop_dbl R L m bsdf 0 s = Inr s"
| "inc_loop_dbl R L m bsdf (Suc i) s =
     (case mBSDF_incvec L m (real i + 0.5) of
        None \<Rightarrow> inc_loop_dbl R L m bsdf i s
      | Some vin \<Rightarrow>
          (case out_loop_dbl R L m bsdf vin i (nout m) s of
             Inl r \<Rightarrow> Inl r
           | Inr s' \<Rightarrow> inc_loop_dbl R L m bsdf i s'))"

definition report_dbl :: "(real \<Rightarrow> real) \<Rightarrow> string \<Rightarrow> query list + locals \<Rightarrow> outcome" where
  "report_dbl R nm r =
     (case r of
        Inl qs \<Rightarrow> ([], qs)
      | Inr s \<Rightarrow>
          if ntested s \<noteq> 0 then
            ([[Txt nm, Num (emin s), Num (R (esum s / real (ntested s))), Num (emax s)]],
             asked s)
          else ([nothing2do nm], asked s))"

definition check_df_dbl ::
  "(real \<Rightarrow> real) \<Rightarrow> 'e bsdf_lib \<Rightarrow> string \<Rightarrow> SDData \<Rightarrow> cint \<Rightarrow> SDSpectralDF
     \<Rightarrow> fault + outcome" where
  "check_df_dbl R L nm bsdf fl df =
     (if fl AND F_MATRIX \<noteq> 0 then
        (case dist_ptr (comp0 df) of
           MtxData m \<Rightarrow>
             Inr (report_dbl R nm (inc_loop_dbl R L m bsdf (ninc m) (init_locals L)))
         | _ \<Rightarrow> Inl BadCast)
      else Inr (report_dbl R nm (Inr (init_locals L))))"

definition checkReciprocity_dbl ::
  "(real \<Rightarrow> real) \<Rightarrow> 'e bsdf_lib \<Rightarrow> string \<Rightarrow> cint \<Rightarrow> cint \<Rightarrow> SDData \<Rightarrow> cint
     \<Rightarrow> fault + outcome" where
  "checkReciprocity_dbl R L nm side1 side2 bsdf fl =
     (let df = tf bsdf in
      if side1 = side2 then
        (let df = (if 0 < sint side1 then rf bsdf else rb bsdf) in
         case df of
           None \<Rightarrow> Inr ([nothing2do nm], [])
         | Some d \<Rightarrow> check_df_dbl R L nm bsdf fl d)
      else if tf bsdf = None \<or> tb bsdf = None then Inr ([nothing2do nm], [])
      else
        (case df of
           None \<Rightarrow> Inr ([nothing2do nm], [])
         | Some d \<Rightarrow> check_df_dbl R L nm bsdf fl d))"

text \<open>
  The vocabulary of the properties, in double precision: what the loops do for one bin
  pair and for a list of them, the relative error of a tested pair as line 115
  computes it, and the effect of a tested pair on the local variables.
\<close>

definition visit_dbl ::
  "(real \<Rightarrow> real) \<Rightarrow> 'e bsdf_lib \<Rightarrow> SDMat \<Rightarrow> SDData \<Rightarrow> nat \<times> nat \<Rightarrow> locals
     \<Rightarrow> query list + locals" where
  "visit_dbl R L m bsdf p s =
     (case mBSDF_incvec L m (real (fst p) + 0.5) of
        None \<Rightarrow> Inr s
      | Some vin \<Rightarrow>
          (case mBSDF_outvec L m (real (snd p) + 0.5) of
             None \<Rightarrow> Inr s
           | Some vout \<Rightarrow> test_pair_dbl R L m bsdf vin vout (fst p) (snd p) s))"

fun visit_all_dbl ::
  "(real \<Rightarrow> real) \<Rightarrow> 'e bsdf_lib \<Rightarrow> SDMat \<Rightarrow> SDData \<Rightarrow> (nat \<times> nat) list \<Rightarrow> locals
     \<Rightarrow> query list + locals" where
  "visit_all_dbl R L m bsdf [] s = Inr s"
| "visit_all_dbl R L m bsdf (p # ps) s =
     (case visit_dbl R L m bsdf p s of
        Inl r \<Rightarrow> Inl r
      | Inr s' \<Rightarrow> visit_all_dbl R L m bsdf ps s')"

definition relerr_dbl ::
  "(real \<Rightarrow> real) \<Rightarrow> 'e bsdf_lib \<Rightarrow> SDMat \<Rightarrow> SDData \<Rightarrow> tested \<Rightarrow> real" where
  "relerr_dbl R L m bsdf t =
     R (R (100 * \<bar>R (forward L m t - cieY (snd (reverse_eval L bsdf t)))\<bar>) / forward L m t)"

definition add_err_dbl :: "(real \<Rightarrow> real) \<Rightarrow> real \<Rightarrow> query \<Rightarrow> locals \<Rightarrow> locals" where
  "add_err_dbl R e q s =
     \<lparr>emin = min e (emin s), emax = max e (emax s), esum = R (esum s + e),
      ntested = Suc (ntested s), asked = asked s @ [q]\<rparr>"

definition step_dbl ::
  "(real \<Rightarrow> real) \<Rightarrow> 'e bsdf_lib \<Rightarrow> SDMat \<Rightarrow> SDData \<Rightarrow> tested \<Rightarrow> locals
     \<Rightarrow> query list + locals" where
  "step_dbl R L m bsdf t s =
     (if fails L bsdf t then Inl (asked s @ [reversed t])
      else Inr (add_err_dbl R (relerr_dbl R L m bsdf t) (reversed t) s))"

fun run_dbl ::
  "(real \<Rightarrow> real) \<Rightarrow> 'e bsdf_lib \<Rightarrow> SDMat \<Rightarrow> SDData \<Rightarrow> tested list \<Rightarrow> locals
     \<Rightarrow> query list + locals" where
  "run_dbl R L m bsdf [] s = Inr s"
| "run_dbl R L m bsdf (t # ts) s =
     (case step_dbl R L m bsdf t s of
        Inl r \<Rightarrow> Inl r
      | Inr s' \<Rightarrow> run_dbl R L m bsdf ts s')"

text \<open>A printed line of statistics without its mean; any other line unchanged.\<close>

definition drop_mean :: "line \<Rightarrow> line" where
  "drop_mean l = (case l of [a, Num mn, Num av, Num mx] \<Rightarrow> [a, Num mn, Num mx] | _ \<Rightarrow> l)"

text \<open>
  The relation between the running minimum, sum, count and maximum that the loops
  maintain in double precision.
\<close>

definition nonneg_stats :: "locals \<Rightarrow> bool" where
  "nonneg_stats s \<longleftrightarrow>
     0 \<le> emin s \<and> 0 \<le> esum s \<and> 0 \<le> emax s \<and> (ntested s \<noteq> 0 \<longrightarrow> emin s \<le> emax s)"

section \<open>Example datasets\<close>

text \<open>A dataset without any distribution.\<close>

definition no_bsdf :: SDData where
  "no_bsdf = \<lparr>rf = None, rb = None, tf = None, tb = None\<rparr>"

text \<open>A colour Klems matrix with 145 bins as the only distribution, in \<^verbatim>\<open>rf\<close>.\<close>

definition klems_full :: SDMat where
  "klems_full = \<lparr>ninc = 145, nout = 145, chroma = Some []\<rparr>"

definition full_df :: SDSpectralDF where
  "full_df =
     \<lparr>minProjSA = 1 / 100, maxHemi = 1 / 2,
      comp0 = \<lparr>func = SDhandleMtx, dist_ptr = MtxData klems_full\<rparr>\<rparr>"

definition full_bsdf :: SDData where
  "full_bsdf = \<lparr>rf = Some full_df, rb = None, tf = None, tb = None\<rparr>"

text \<open>An isotropic tensor tree without chroma trees as the only distribution, in
  \<^verbatim>\<open>tf\<close>.\<close>

definition iso_tree :: SDTre where
  "iso_tree = \<lparr>stc = (\<lambda>k. if k = 0 then Some \<lparr>ndim = 3\<rparr> else None)\<rparr>"

definition tree_df :: SDSpectralDF where
  "tree_df =
     \<lparr>minProjSA = 1 / 100, maxHemi = 1 / 2,
      comp0 = \<lparr>func = SDhandleTre, dist_ptr = TreData iso_tree\<rparr>\<rparr>"

definition tree_bsdf :: SDData where
  "tree_bsdf = \<lparr>rf = None, rb = None, tf = Some tree_df, tb = None\<rparr>"

text \<open>A library whose directions carry the bin centre in their first coordinate, with
  forward value \<open>ob + i\<close> and reverse luminance \<open>(ob + 1/2) + (i + 1/2)\<close>, and a
  dataset with a \<open>2 \<times> 2\<close> matrix in \<^verbatim>\<open>rf\<close> only. The constants are those of
  \<^verbatim>\<open>fvect.h\<close> for double precision.\<close>

definition ex_mat :: SDMat where
  "ex_mat = \<lparr>ninc = 2, nout = 2, chroma = None\<rparr>"

definition ex_df :: SDSpectralDF where
  "ex_df =
     \<lparr>minProjSA = 1 / 4, maxHemi = 1 / 2,
      comp0 = \<lparr>func = SDhandleMtx, dist_ptr = MtxData ex_mat\<rparr>\<rparr>"

definition ex_bsdf :: SDData where
  "ex_bsdf = \<lparr>rf = Some ex_df, rb = None, tf = None, tb = None\<rparr>"

definition ex_lib :: "nat bsdf_lib" where
  "ex_lib =
     \<lparr>FTINY = 1 / 10 ^ 6, FHUGE = 10 ^ 10,
      mBSDF_incvec = (\<lambda>m x. Some (x, 0, 1)),
      mBSDF_outvec = (\<lambda>m x. Some (x, 0, - 1)),
      mBSDF_value = (\<lambda>m ob i. real (ob + i)),
      SDevalBSDF = (\<lambda>inVec outVec sd.
         (0, \<lparr>cieY = fst inVec + fst outVec, spec = \<lparr>cx = 1 / 3, cy = 1 / 3\<rparr>\<rparr>)),
      SDreportError = (\<lambda>ec. ec \<noteq> 0)\<rparr>"

text \<open>The same library, except that the evaluation fails at the reversed pair of
  the bin pair \<open>(i, ob) = (1, 0)\<close>.\<close>

definition fail_lib :: "nat bsdf_lib" where
  "fail_lib =
     ex_lib\<lparr>SDevalBSDF := (\<lambda>inVec outVec sd.
        (if fst inVec < fst outVec then 1 else 0,
         \<lparr>cieY = fst inVec + fst outVec, spec = \<lparr>cx = 1 / 3, cy = 1 / 3\<rparr>\<rparr>))\<rparr>"

text \<open>A dataset whose \<^verbatim>\<open>tb\<close> is a matrix and whose \<^verbatim>\<open>rf\<close> is a tensor tree.\<close>

definition mixed_bsdf :: SDData where
  "mixed_bsdf = \<lparr>rf = Some tree_df, rb = None, tf = None, tb = Some ex_df\<rparr>"





text \<open>
  A dataset with a \<open>1 \<times> 5\<close> matrix in \<^verbatim>\<open>rf\<close>, and libraries in which every forward
  value is \<open>1\<close> and every reverse luminance is the same double \<open>y\<close>: in \<open>above_lib\<close>
  the double nearest to \<open>0.3605\<close>, in \<open>below_lib\<close> the double nearest to \<open>0.3635\<close>.
\<close>

definition five_mat :: SDMat where
  "five_mat = \<lparr>ninc = 1, nout = 5, chroma = None\<rparr>"

definition five_df :: SDSpectralDF where
  "five_df =
     \<lparr>minProjSA = 1 / 4, maxHemi = 1 / 2,
      comp0 = \<lparr>func = SDhandleMtx, dist_ptr = MtxData five_mat\<rparr>\<rparr>"

definition five_bsdf :: SDData where
  "five_bsdf = \<lparr>rf = Some five_df, rb = None, tf = None, tb = None\<rparr>"

definition uniform_lib :: "real \<Rightarrow> nat bsdf_lib" where
  "uniform_lib y =
     \<lparr>FTINY = 1 / 10 ^ 6, FHUGE = 10 ^ 10,
      mBSDF_incvec = (\<lambda>m x. Some (x, 0, 1)),
      mBSDF_outvec = (\<lambda>m x. Some (x, 0, - 1)),
      mBSDF_value = (\<lambda>m ob i. 1),
      SDevalBSDF = (\<lambda>inVec outVec sd.
         (0, \<lparr>cieY = y, spec = \<lparr>cx = 1 / 3, cy = 1 / 3\<rparr>\<rparr>)),
      SDreportError = (\<lambda>ec. ec \<noteq> 0)\<rparr>"

definition above_lib :: "nat bsdf_lib" where
  "above_lib = uniform_lib (6494190662668255 / 2 ^ 54)"

definition below_lib :: "nat bsdf_lib" where
  "below_lib = uniform_lib (6548233858196701 / 2 ^ 54)"

text \<open>
  A dataset with a \<open>1 \<times> 3\<close> matrix in \<^verbatim>\<open>rf\<close>, and a library in which every forward
  value is \<open>1\<close> and the reverse luminance is the double nearest to \<open>0.91\<close>, to \<open>0.9005\<close>
  and to \<open>0.9\<close> for the outgoing bins \<open>0\<close>, \<open>1\<close> and \<open>2\<close>.
\<close>

definition three_mat :: SDMat where
  "three_mat = \<lparr>ninc = 1, nout = 3, chroma = None\<rparr>"

definition three_df :: SDSpectralDF where
  "three_df =
     \<lparr>minProjSA = 1 / 4, maxHemi = 1 / 2,
      comp0 = \<lparr>func = SDhandleMtx, dist_ptr = MtxData three_mat\<rparr>\<rparr>"

definition three_bsdf :: SDData where
  "three_bsdf = \<lparr>rf = Some three_df, rb = None, tf = None, tb = None\<rparr>"

definition three_lib :: "nat bsdf_lib" where
  "three_lib =
     \<lparr>FTINY = 1 / 10 ^ 6, FHUGE = 10 ^ 10,
      mBSDF_incvec = (\<lambda>m x. Some (x, 0, 1)),
      mBSDF_outvec = (\<lambda>m x. Some (x, 0, - 1)),
      mBSDF_value = (\<lambda>m ob i. 1),
      SDevalBSDF = (\<lambda>inVec outVec sd.
         (0, \<lparr>cieY = (if fst inVec < 1 then 8196551321814303 / 2 ^ 53
                       else if fst inVec < 2 then 8110982928894263 / 2 ^ 53
                       else 8106479329266893 / 2 ^ 53),
              spec = \<lparr>cx = 1 / 3, cy = 1 / 3\<rparr>\<rparr>)),
      SDreportError = (\<lambda>ec. ec \<noteq> 0)\<rparr>"

section \<open>The loops as a traversal of the tested pairs\<close>

lemma visit_all_append:
  "visit_all L m bsdf (ps @ qs) s =
     (case visit_all L m bsdf ps s of Inl r \<Rightarrow> Inl r | Inr s' \<Rightarrow> visit_all L m bsdf qs s')"
  by (induction ps arbitrary: s) (simp_all split: sum.splits)

lemma visit_all_no_incvec:
  "mBSDF_incvec L m (real i + 0.5) = None \<Longrightarrow>
   visit_all L m bsdf (map (\<lambda>ob. (i, ob)) obs) s = Inr s"
  by (induction obs) (simp_all add: visit_def)

lemma out_loop_visit_all:
  "mBSDF_incvec L m (real i + 0.5) = Some vin \<Longrightarrow>
   out_loop L m bsdf vin i n s = visit_all L m bsdf (map (\<lambda>ob. (i, ob)) (rev [0..<n])) s"
  by (induction n arbitrary: s) (simp_all add: visit_def split: option.splits sum.splits)

lemma inc_loop_visit_all_gen:
  "inc_loop L m bsdf n s =
   visit_all L m bsdf
     (concat (map (\<lambda>i. map (\<lambda>ob. (i, ob)) (rev [0..<nout m])) (rev [0..<n]))) s"
proof (induction n arbitrary: s)
  case 0
  show ?case by simp
next
  case (Suc n)
  show ?case
  proof (cases "mBSDF_incvec L m (real n + 0.5)")
    case None
    then show ?thesis
      by (simp add: visit_all_append visit_all_no_incvec Suc.IH)
  next
    case (Some vin)
    then show ?thesis
      by (simp add: visit_all_append out_loop_visit_all Suc.IH split: sum.splits)
  qed
qed

lemma inc_loop_visit_all:
  "inc_loop L m bsdf (ninc m) s = visit_all L m bsdf (bin_pairs m) s"
  by (simp add: inc_loop_visit_all_gen bin_pairs_def)

lemma visit_sample:
  "visit L m bsdf p s =
     (case sample L m p of None \<Rightarrow> Inr s | Some t \<Rightarrow> step L m bsdf t s)"
  by (auto simp: visit_def sample_def test_pair_def step_def fails_def reverse_eval_def
      reversed_def relerr_def forward_def add_err_def Let_def min_def max_def
      split: option.splits prod.splits)

lemma visit_all_run:
  "visit_all L m bsdf ps s = run L m bsdf (tested_pairs L m ps) s"
  by (induction ps arbitrary: s)
     (simp_all add: visit_sample split: option.splits sum.splits)

lemma upto_fail_none: "\<forall>t\<in>set ts. \<not> f t \<Longrightarrow> upto_fail f ts = ts"
  by (induction ts) simp_all

lemma run_ok:
  "\<forall>t\<in>set ts. \<not> fails L bsdf t \<Longrightarrow>
   run L m bsdf ts s =
     Inr \<lparr>emin = fold min (map (relerr L m bsdf) ts) (emin s),
          emax = fold max (map (relerr L m bsdf) ts) (emax s),
          esum = esum s + sum_list (map (relerr L m bsdf) ts),
          ntested = ntested s + length ts,
          asked = asked s @ map reversed ts\<rparr>"
proof (induction ts arbitrary: s)
  case Nil
  show ?case by simp
next
  case (Cons t ts)
  then show ?case
    by (simp add: step_def add_err_def algebra_simps)
qed

lemma run_fail:
  "\<exists>t\<in>set ts. fails L bsdf t \<Longrightarrow>
   run L m bsdf ts s = Inl (asked s @ map reversed (upto_fail (fails L bsdf) ts))"
proof (induction ts arbitrary: s)
  case Nil
  then show ?case by simp
next
  case (Cons t ts)
  show ?case
  proof (cases "fails L bsdf t")
    case True
    then show ?thesis by (simp add: step_def)
  next
    case False
    with Cons.prems have "\<exists>t\<in>set ts. fails L bsdf t" by simp
    from Cons.IH [OF this] False show ?thesis
      by (simp add: step_def add_err_def)
  qed
qed

lemma set_bin_pairs: "set (bin_pairs m) = {(i, ob). i < ninc m \<and> ob < nout m}"
  by (auto simp: bin_pairs_def)

lemma set_tested_pairs:
  "set (tested_pairs L m ps) = {t. \<exists>p\<in>set ps. sample L m p = Some t}"
  by (induction ps) (auto split: option.splits)

lemma sample_Some:
  "sample L m p = Some t \<longleftrightarrow>
     mBSDF_incvec L m (real (fst p) + 0.5) = Some (t_vin t) \<and>
     mBSDF_outvec L m (real (snd p) + 0.5) = Some (t_vout t) \<and>
     FTINY L < mBSDF_value L m (snd p) (fst p) \<and> t_i t = fst p \<and> t_o t = snd p"
  by (cases t) (auto simp: sample_def split: option.splits)

lemma set_upto_fail: "set (upto_fail f ts) \<subseteq> set ts"
  by (induction ts) auto

lemma upto_fail_split:
  "\<exists>t\<in>set ts. f t \<Longrightarrow>
   \<exists>ts1 u ts2. ts = ts1 @ u # ts2 \<and> (\<forall>v\<in>set ts1. \<not> f v) \<and> f u \<and>
     upto_fail f ts = ts1 @ [u]"
proof (induction ts)
  case Nil
  then show ?case by simp
next
  case (Cons t ts)
  show ?case
  proof (cases "f t")
    case True
    then have "t # ts = [] @ t # ts \<and> (\<forall>v\<in>set []. \<not> f v) \<and> f t \<and>
        upto_fail f (t # ts) = [] @ [t]"
      by simp
    then show ?thesis by blast
  next
    case False
    with Cons.prems have "\<exists>t\<in>set ts. f t" by simp
    from Cons.IH [OF this] obtain ts1 u ts2 where
      h: "ts = ts1 @ u # ts2" "\<forall>v\<in>set ts1. \<not> f v" "f u" "upto_fail f ts = ts1 @ [u]"
      by blast
    with False have "t # ts = (t # ts1) @ u # ts2 \<and> (\<forall>v\<in>set (t # ts1). \<not> f v) \<and> f u \<and>
        upto_fail f (t # ts) = (t # ts1) @ [u]"
      by simp
    then show ?thesis by blast
  qed
qed

lemma run_asked:
  "(case run L m bsdf ts s of Inl qs \<Rightarrow> qs | Inr s' \<Rightarrow> asked s') =
     asked s @ map reversed (upto_fail (fails L bsdf) ts)"
proof (cases "\<exists>t\<in>set ts. fails L bsdf t")
  case True
  then show ?thesis by (simp add: run_fail)
next
  case False
  then have "\<forall>t\<in>set ts. \<not> fails L bsdf t" by simp
  then show ?thesis by (simp add: run_ok upto_fail_none)
qed

lemma run_Inr_iff:
  "(\<exists>s'. run L m bsdf ts s = Inr s') \<longleftrightarrow> (\<forall>t\<in>set ts. \<not> fails L bsdf t)"
proof
  assume "\<exists>s'. run L m bsdf ts s = Inr s'"
  then obtain s' where r: "run L m bsdf ts s = Inr s'" ..
  show "\<forall>t\<in>set ts. \<not> fails L bsdf t"
  proof (rule ccontr)
    assume "\<not> (\<forall>t\<in>set ts. \<not> fails L bsdf t)"
    then have "\<exists>t\<in>set ts. fails L bsdf t" by simp
    from run_fail [OF this] r show False by simp
  qed
next
  assume "\<forall>t\<in>set ts. \<not> fails L bsdf t"
  then show "\<exists>s'. run L m bsdf ts s = Inr s'"
    by (simp add: run_ok)
qed

section \<open>Slot selection and the final report\<close>

lemma checkReciprocity_operative:
  "checkReciprocity L nm side1 side2 bsdf fl =
     (case operative bsdf side1 side2 of
        None \<Rightarrow> Inr ([nothing2do nm], [])
      | Some d \<Rightarrow> check_df L nm bsdf fl d)"
  by (simp add: checkReciprocity_def operative_def Let_def split: option.splits)

lemma check_df_no_flag:
  "fl AND F_MATRIX = 0 \<Longrightarrow> check_df L nm bsdf fl d = Inr ([nothing2do nm], [])"
  by (simp add: check_df_def report_def init_locals_def)

lemma check_df_func:
  "check_df L nm bsdf fl (d\<lparr>comp0 := (comp0 d)\<lparr>func := f\<rparr>\<rparr>) = check_df L nm bsdf fl d"
  by (simp add: check_df_def)

lemma check_matrix:
  "operative bsdf side1 side2 = Some d \<Longrightarrow> dist_ptr (comp0 d) = MtxData m \<Longrightarrow>
   fl AND F_MATRIX \<noteq> 0 \<Longrightarrow>
   checkReciprocity L nm side1 side2 bsdf fl =
     Inr (report nm (run L m bsdf (tested_pairs L m (bin_pairs m)) (init_locals L)))"
  by (simp add: checkReciprocity_operative check_df_def inc_loop_visit_all visit_all_run)

lemma snd_report:
  "snd (report nm r) = (case r of Inl qs \<Rightarrow> qs | Inr s' \<Rightarrow> asked s')"
  by (simp add: report_def split: sum.splits)

lemma fst_report_nonempty:
  "fst (report nm r) \<noteq> [] \<longleftrightarrow> (\<exists>s'. r = Inr s')"
  by (simp add: report_def split: sum.splits)

text \<open>Facts about the concrete words and the example run used below.\<close>

lemma word_facts:
  "0 < sint (1 :: cint)" "\<not> 0 < sint (- 1 :: cint)" "(- 1 :: cint) \<noteq> 1"
  "F_MATRIX AND F_MATRIX \<noteq> 0" "F_TTREE AND F_MATRIX = 0" "F_MATRIX \<noteq> 0"
  by (simp_all add: F_MATRIX_def F_TTREE_def)

lemma ex_front:
  "check_df ex_lib ''Front Refl'' ex_bsdf F_MATRIX ex_df =
     Inr ([[Txt ''Front Refl'', Num 50, Num (250 / 3), Num 100]],
          [((3 / 2, 0, - 1), (3 / 2, 0, 1)), ((1 / 2, 0, - 1), (3 / 2, 0, 1)),
           ((3 / 2, 0, - 1), (1 / 2, 0, 1))])"
  by code_simp

lemma ex_front_check:
  "checkReciprocity ex_lib ''Front Refl'' 1 1 ex_bsdf F_MATRIX =
     Inr ([[Txt ''Front Refl'', Num 50, Num (250 / 3), Num 100]],
          [((3 / 2, 0, - 1), (3 / 2, 0, 1)), ((1 / 2, 0, - 1), (3 / 2, 0, 1)),
           ((3 / 2, 0, - 1), (1 / 2, 0, 1))])"
  by code_simp

lemma ex_operative:
  "operative ex_bsdf 1 1 = Some ex_df \<and> dist_ptr (comp0 ex_df) = MtxData ex_mat \<and>
   F_MATRIX AND F_MATRIX \<noteq> 0"
  by (simp add: operative_def word_facts ex_bsdf_def ex_df_def)

lemma fail_tested:
  "tested_pairs fail_lib ex_mat (bin_pairs ex_mat) =
     [\<lparr>t_i = 1, t_o = 1, t_vin = (3 / 2, 0, 1), t_vout = (3 / 2, 0, - 1)\<rparr>,
      \<lparr>t_i = 1, t_o = 0, t_vin = (3 / 2, 0, 1), t_vout = (1 / 2, 0, - 1)\<rparr>,
      \<lparr>t_i = 0, t_o = 1, t_vin = (1 / 2, 0, 1), t_vout = (3 / 2, 0, - 1)\<rparr>]"
  by code_simp

lemma fail_fails:
  "fails fail_lib ex_bsdf \<lparr>t_i = 1, t_o = 0, t_vin = (3 / 2, 0, 1), t_vout = (1 / 2, 0, - 1)\<rparr>"
  "\<not> fails fail_lib ex_bsdf \<lparr>t_i = 1, t_o = 1, t_vin = (3 / 2, 0, 1), t_vout = (3 / 2, 0, - 1)\<rparr>"
  by code_simp+

lemma fail_check:
  "checkReciprocity fail_lib ''Front Refl'' 1 1 ex_bsdf F_MATRIX =
     Inr ([], [((3 / 2, 0, - 1), (3 / 2, 0, 1)), ((1 / 2, 0, - 1), (3 / 2, 0, 1))])"
  by code_simp

section \<open>The sign of the relative error\<close>


section \<open>The statistics as functions of the tested pairs\<close>

lemma fold_min_Min: "fold min xs (a::real) = Min (set (a # xs))"
  by (simp only: Min.set_eq_fold)

lemma fold_max_Max: "fold max xs (a::real) = Max (set (a # xs))"
  by (simp only: Max.set_eq_fold)





lemma mset_tested_pairs:
  "mset (tested_pairs L m ps) =
     sum_mset (image_mset (\<lambda>p. case sample L m p of None \<Rightarrow> {#} | Some t \<Rightarrow> {#t#}) (mset ps))"
  by (induction ps) (simp_all split: option.splits)




section \<open>Rounding to double precision\<close>

text \<open>
  The value of \<open>rnd64\<close> at an argument whose exponent is known, which is how the
  roundings of the examples are computed.
\<close>

lemma scale_up:
  "2 ^ 52 \<le> x * 2 ^ j \<Longrightarrow> x * 2 ^ j < 2 ^ 53 \<Longrightarrow> j \<le> k \<Longrightarrow>
   scale k x e = (x * 2 ^ j, e - int j)"
proof (induction j arbitrary: k x e)
  case 0
  then show ?case by (cases k) simp_all
next
  case (Suc j)
  from Suc.prems(3) obtain k' where k: "k = Suc k'" "j \<le> k'"
    by (cases k) simp_all
  have px: "0 < x"
  proof (rule ccontr)
    assume "\<not> 0 < x"
    then have "x * 2 ^ Suc j \<le> 0"
      by (simp add: mult_le_0_iff)
    with Suc.prems(1) show False by simp
  qed
  have "x * 2 * 1 \<le> x * 2 * 2 ^ j"
    by (rule mult_left_mono) (use px in simp_all)
  with Suc.prems(2) have "x * 2 < 2 ^ 53"
    by simp
  then have lt: "x < 2 ^ 52" by simp
  from Suc.prems have "scale k' (2 * x) (e - 1) = (2 * x * 2 ^ j, e - 1 - int j)"
    using k by (intro Suc.IH) (simp_all add: mult.assoc mult.commute mult.left_commute)
  with lt k show ?case
    by (simp add: mult.assoc mult.commute mult.left_commute)
qed

lemma scale_down:
  "2 ^ 52 \<le> x / 2 ^ j \<Longrightarrow> x / 2 ^ j < 2 ^ 53 \<Longrightarrow> j \<le> k \<Longrightarrow>
   scale k x e = (x / 2 ^ j, e + int j)"
proof (induction j arbitrary: k x e)
  case 0
  then show ?case by (cases k) simp_all
next
  case (Suc j)
  from Suc.prems(3) obtain k' where k: "k = Suc k'" "j \<le> k'"
    by (cases k) simp_all
  from Suc.prems(1) have "2 ^ 52 * (2 * 2 ^ j) \<le> x"
    by (simp add: pos_le_divide_eq)
  moreover have "(2::real) ^ 53 \<le> 2 ^ 52 * (2 * 2 ^ j)"
    by simp
  ultimately have ge: "2 ^ 53 \<le> x" by (rule order_trans[rotated])
  from Suc.prems have "scale k' (x / 2) (e + 1) = (x / 2 / 2 ^ j, e + 1 + int j)"
    using k by (intro Suc.IH) (simp_all add: field_simps)
  with ge k show ?case
    by (simp add: field_simps)
qed

lemma rnd64_up:
  assumes "2 ^ 52 \<le> x * 2 ^ j" "x * 2 ^ j < 2 ^ 53" "j \<le> 1100"
  shows "rnd64 x = of_int (rne (x * 2 ^ j)) / 2 ^ j"
proof -
  have "0 < x"
  proof (rule ccontr)
    assume "\<not> 0 < x"
    then have "x * 2 ^ j \<le> 0"
      by (simp add: mult_le_0_iff)
    with assms(1) show False by simp
  qed
  moreover from assms have "scale 1100 x 0 = (x * 2 ^ j, - int j)"
    using scale_up [of x j 1100 0] by simp
  ultimately show ?thesis
    by (cases "j = 0") (simp_all add: rnd64_def rnd_pos_def)
qed

lemma rnd64_down:
  assumes "2 ^ 52 \<le> x / 2 ^ j" "x / 2 ^ j < 2 ^ 53" "j \<le> 1100"
  shows "rnd64 x = of_int (rne (x / 2 ^ j)) * 2 ^ j"
proof -
  have "0 < x"
  proof (rule ccontr)
    assume "\<not> 0 < x"
    then have "x / 2 ^ j \<le> 0"
      by (simp add: divide_le_0_iff)
    with assms(1) show False by simp
  qed
  moreover from assms have "scale 1100 x 0 = (x / 2 ^ j, int j)"
    using scale_down [of x j 1100 0] by simp
  ultimately show ?thesis
    by (simp add: rnd64_def rnd_pos_def)
qed

lemma scale_pos: "0 < x \<Longrightarrow> 0 < fst (scale k x e)"
  by (induction k arbitrary: x e) simp_all

lemma rne_nonneg: "0 \<le> x \<Longrightarrow> 0 \<le> rne x"
  by (simp add: rne_def Let_def)

lemma rnd64_nonneg: "0 \<le> x \<Longrightarrow> 0 \<le> rnd64 x"
proof (cases "x = 0")
  case True
  then show ?thesis by (simp add: rnd64_def)
next
  case False
  assume "0 \<le> x"
  with False have p: "0 < x" by simp
  obtain y e where s: "scale 1100 x 0 = (y, e)" by (cases "scale 1100 x 0")
  with scale_pos [OF p, of 1100 0] have "0 \<le> y" by simp
  then have "0 \<le> rne y" by (rule rne_nonneg)
  with p s show ?thesis
    by (simp add: rnd64_def rnd_pos_def)
qed

lemma rnd64_nonneg_rounding: "nonneg_rounding rnd64"
  by (simp add: nonneg_rounding_def rnd64_nonneg)

section \<open>The loops in double precision\<close>

lemma visit_all_dbl_append:
  "visit_all_dbl R L m bsdf (ps @ qs) s =
     (case visit_all_dbl R L m bsdf ps s of
        Inl r \<Rightarrow> Inl r
      | Inr s' \<Rightarrow> visit_all_dbl R L m bsdf qs s')"
  by (induction ps arbitrary: s) (simp_all split: sum.splits)

lemma visit_all_dbl_no_incvec:
  "mBSDF_incvec L m (real i + 0.5) = None \<Longrightarrow>
   visit_all_dbl R L m bsdf (map (\<lambda>ob. (i, ob)) obs) s = Inr s"
  by (induction obs) (simp_all add: visit_dbl_def)

lemma out_loop_dbl_visit_all:
  "mBSDF_incvec L m (real i + 0.5) = Some vin \<Longrightarrow>
   out_loop_dbl R L m bsdf vin i n s =
     visit_all_dbl R L m bsdf (map (\<lambda>ob. (i, ob)) (rev [0..<n])) s"
  by (induction n arbitrary: s) (simp_all add: visit_dbl_def split: option.splits sum.splits)

lemma inc_loop_dbl_visit_all_gen:
  "inc_loop_dbl R L m bsdf n s =
   visit_all_dbl R L m bsdf
     (concat (map (\<lambda>i. map (\<lambda>ob. (i, ob)) (rev [0..<nout m])) (rev [0..<n]))) s"
proof (induction n arbitrary: s)
  case 0
  show ?case by simp
next
  case (Suc n)
  show ?case
  proof (cases "mBSDF_incvec L m (real n + 0.5)")
    case None
    then show ?thesis
      by (simp add: visit_all_dbl_append visit_all_dbl_no_incvec Suc.IH)
  next
    case (Some vin)
    then show ?thesis
      by (simp add: visit_all_dbl_append out_loop_dbl_visit_all Suc.IH split: sum.splits)
  qed
qed

lemma inc_loop_dbl_visit_all:
  "inc_loop_dbl R L m bsdf (ninc m) s = visit_all_dbl R L m bsdf (bin_pairs m) s"
  by (simp add: inc_loop_dbl_visit_all_gen bin_pairs_def)

lemma visit_dbl_sample:
  "visit_dbl R L m bsdf p s =
     (case sample L m p of None \<Rightarrow> Inr s | Some t \<Rightarrow> step_dbl R L m bsdf t s)"
  by (auto simp: visit_dbl_def sample_def test_pair_dbl_def step_dbl_def fails_def
      reverse_eval_def reversed_def relerr_dbl_def forward_def add_err_dbl_def Let_def
      min_def max_def split: option.splits prod.splits)

lemma visit_all_dbl_run:
  "visit_all_dbl R L m bsdf ps s = run_dbl R L m bsdf (tested_pairs L m ps) s"
  by (induction ps arbitrary: s)
     (simp_all add: visit_dbl_sample split: option.splits sum.splits)

lemma run_dbl_fail:
  "\<exists>t\<in>set ts. fails L bsdf t \<Longrightarrow> \<exists>qs. run_dbl R L m bsdf ts s = Inl qs"
proof (induction ts arbitrary: s)
  case Nil
  then show ?case by simp
next
  case (Cons t ts)
  show ?case
  proof (cases "fails L bsdf t")
    case True
    then show ?thesis by (simp add: step_dbl_def)
  next
    case False
    with Cons.prems have "\<exists>t\<in>set ts. fails L bsdf t" by simp
    from Cons.IH [OF this] False show ?thesis
      by (simp add: step_dbl_def)
  qed
qed

lemma run_dbl_ok:
  "\<forall>t\<in>set ts. \<not> fails L bsdf t \<Longrightarrow>
   \<exists>s'. run_dbl R L m bsdf ts s = Inr s' \<and>
     emin s' = fold min (map (relerr_dbl R L m bsdf) ts) (emin s) \<and>
     emax s' = fold max (map (relerr_dbl R L m bsdf) ts) (emax s) \<and>
     ntested s' = ntested s + length ts"
proof (induction ts arbitrary: s)
  case Nil
  show ?case by simp
next
  case (Cons t ts)
  from Cons.prems have "\<forall>t\<in>set ts. \<not> fails L bsdf t" by simp
  from Cons.IH [OF this, of "add_err_dbl R (relerr_dbl R L m bsdf t) (reversed t) s"]
    Cons.prems
  show ?case
    by (auto simp: step_dbl_def add_err_dbl_def)
qed

lemma checkReciprocity_dbl_operative:
  "checkReciprocity_dbl R L nm side1 side2 bsdf fl =
     (case operative bsdf side1 side2 of
        None \<Rightarrow> Inr ([nothing2do nm], [])
      | Some d \<Rightarrow> check_df_dbl R L nm bsdf fl d)"
  by (simp add: checkReciprocity_dbl_def operative_def Let_def split: option.splits)

lemma check_matrix_dbl:
  "operative bsdf side1 side2 = Some d \<Longrightarrow> dist_ptr (comp0 d) = MtxData m \<Longrightarrow>
   fl AND F_MATRIX \<noteq> 0 \<Longrightarrow>
   checkReciprocity_dbl R L nm side1 side2 bsdf fl =
     Inr (report_dbl R nm (run_dbl R L m bsdf (tested_pairs L m (bin_pairs m)) (init_locals L)))"
  by (simp add: checkReciprocity_dbl_operative check_df_dbl_def inc_loop_dbl_visit_all
      visit_all_dbl_run)

text \<open>With the identity as the rounding function, the second form of the check is the
  first.\<close>

lemma exact_test_pair: "test_pair_dbl (\<lambda>x. x) L m bsdf vin vout i ob s = test_pair L m bsdf vin vout i ob s"
  by (simp add: test_pair_dbl_def test_pair_def)

lemma exact_out_loop: "out_loop_dbl (\<lambda>x. x) L m bsdf vin i n s = out_loop L m bsdf vin i n s"
  by (induction n arbitrary: s) (simp_all add: exact_test_pair split: option.splits sum.splits)

lemma exact_inc_loop: "inc_loop_dbl (\<lambda>x. x) L m bsdf n s = inc_loop L m bsdf n s"
  by (induction n arbitrary: s) (simp_all add: exact_out_loop split: option.splits sum.splits)

lemma exact_report: "report_dbl (\<lambda>x. x) nm r = report nm r"
  by (simp add: report_dbl_def report_def)

lemma exact_check_df: "check_df_dbl (\<lambda>x. x) L nm bsdf fl d = check_df L nm bsdf fl d"
  by (simp add: check_df_dbl_def check_df_def exact_report exact_inc_loop split: SDdist.splits)

lemma exact_checkReciprocity:
  "checkReciprocity_dbl (\<lambda>x. x) L nm side1 side2 bsdf fl =
     checkReciprocity L nm side1 side2 bsdf fl"
  by (simp add: checkReciprocity_dbl_operative checkReciprocity_operative exact_check_df
      split: option.splits)

lemma drop_mean_stats [simp]:
  "drop_mean [Txt nm, Num mn, Num av, Num mx] = [Txt nm, Num mn, Num mx]"
  by (simp add: drop_mean_def)

lemma drop_mean_nothing2do [simp]: "drop_mean (nothing2do nm) = nothing2do nm"
  by (simp add: drop_mean_def nothing2do_def)

lemma run_dbl_permuted:
  assumes "mset ts = mset ts'"
  shows "map drop_mean (fst (report_dbl R nm (run_dbl R L m bsdf ts s))) =
    map drop_mean (fst (report_dbl R nm (run_dbl R L m bsdf ts' s)))"
proof (cases "\<exists>t\<in>set ts. fails L bsdf t")
  case True
  from assms have e: "set ts = set ts'"
    by (rule mset_eq_setD)
  with True have "\<exists>t\<in>set ts'. fails L bsdf t" by simp
  from run_dbl_fail [OF True] run_dbl_fail [OF this]
  obtain qs qs' where "run_dbl R L m bsdf ts s = Inl qs" "run_dbl R L m bsdf ts' s = Inl qs'"
    by blast
  then show ?thesis
    by (simp add: report_dbl_def)
next
  case False
  from assms have e: "set ts = set ts'"
    by (rule mset_eq_setD)
  from assms have l: "length ts = length ts'"
    by (rule mset_eq_length)
  from False e have ok: "\<forall>t\<in>set ts. \<not> fails L bsdf t" "\<forall>t\<in>set ts'. \<not> fails L bsdf t"
    by simp_all
  from run_dbl_ok [OF ok(1)] obtain s1 where
    s1: "run_dbl R L m bsdf ts s = Inr s1"
      "emin s1 = fold min (map (relerr_dbl R L m bsdf) ts) (emin s)"
      "emax s1 = fold max (map (relerr_dbl R L m bsdf) ts) (emax s)"
      "ntested s1 = ntested s + length ts"
    by blast
  from run_dbl_ok [OF ok(2)] obtain s2 where
    s2: "run_dbl R L m bsdf ts' s = Inr s2"
      "emin s2 = fold min (map (relerr_dbl R L m bsdf) ts') (emin s)"
      "emax s2 = fold max (map (relerr_dbl R L m bsdf) ts') (emax s)"
      "ntested s2 = ntested s + length ts'"
    by blast
  from s1(2) s2(2) e have mn: "emin s1 = emin s2"
    by (simp add: fold_min_Min)
  from s1(3) s2(3) e have mx: "emax s1 = emax s2"
    by (simp add: fold_max_Max)
  from s1(4) s2(4) l have n: "ntested s1 = ntested s2"
    by simp
  show ?thesis
    by (simp add: s1(1) s2(1) report_dbl_def mn mx n)
qed

lemma add_err_dbl_nonneg:
  assumes "nonneg_rounding R" "0 \<le> e" "nonneg_stats s"
  shows "nonneg_stats (add_err_dbl R e q s)"
proof -
  from assms(2,3) have "0 \<le> esum s + e"
    by (simp add: nonneg_stats_def)
  with assms(1) have "0 \<le> R (esum s + e)" by (simp add: nonneg_rounding_def)
  with assms(2,3) show ?thesis
    by (simp add: nonneg_stats_def add_err_dbl_def min_def max_def)
qed

lemma relerr_dbl_nonneg:
  assumes "nonneg_rounding R" "0 \<le> FTINY L" "t \<in> set (tested_pairs L m ps)"
  shows "0 \<le> relerr_dbl R L m bsdf t"
proof -
  from assms(3) obtain p where "sample L m p = Some t"
    by (auto simp: set_tested_pairs)
  then have "FTINY L < forward L m t"
    by (simp add: sample_Some forward_def)
  with assms(2) have f: "0 < forward L m t" by simp
  from assms(1)
  have "0 \<le> R (100 * \<bar>R (forward L m t - cieY (snd (reverse_eval L bsdf t)))\<bar>)"
    by (simp add: nonneg_rounding_def)
  with f have "0 \<le> R (100 * \<bar>R (forward L m t - cieY (snd (reverse_eval L bsdf t)))\<bar>) /
      forward L m t"
    by simp
  with assms(1) show ?thesis
    unfolding relerr_dbl_def nonneg_rounding_def by blast
qed

lemma run_dbl_nonneg:
  "run_dbl R L m bsdf ts s = Inr s' \<Longrightarrow> nonneg_rounding R \<Longrightarrow>
   \<forall>t\<in>set ts. 0 \<le> relerr_dbl R L m bsdf t \<Longrightarrow> nonneg_stats s \<Longrightarrow> nonneg_stats s'"
proof (induction ts arbitrary: s)
  case Nil
  then show ?case by simp
next
  case (Cons t ts)
  show ?case
  proof (cases "fails L bsdf t")
    case True
    with Cons.prems(1) show ?thesis by (simp add: step_dbl_def)
  next
    case False
    with Cons.prems(1)
    have "run_dbl R L m bsdf ts (add_err_dbl R (relerr_dbl R L m bsdf t) (reversed t) s) = Inr s'"
      by (simp add: step_dbl_def)
    moreover from Cons.prems
    have "nonneg_stats (add_err_dbl R (relerr_dbl R L m bsdf t) (reversed t) s)"
      by (simp add: add_err_dbl_nonneg)
    ultimately show ?thesis
      using Cons.IH Cons.prems(2,3) by simp
  qed
qed

lemma report_dbl_stats:
  "report_dbl R nm r = ([[Txt nm', Num mn, Num av, Num mx]], qs) \<Longrightarrow>
   \<exists>s. r = Inr s \<and> ntested s \<noteq> 0 \<and> mn = emin s \<and>
     av = R (esum s / real (ntested s)) \<and> mx = emax s"
  by (auto simp: report_dbl_def nothing2do_def split: sum.splits if_splits)

section \<open>Example runs in double precision\<close>

text \<open>The reverse luminances of the examples are the doubles nearest to the decimals
  named there.\<close>

lemma nearest_doubles:
  "rnd64 (3605 / 10000) = 6494190662668255 / 2 ^ 54"
  "rnd64 (3635 / 10000) = 6548233858196701 / 2 ^ 54"
  "rnd64 (91 / 100) = 8196551321814303 / 2 ^ 53"
  "rnd64 (9005 / 10000) = 8110982928894263 / 2 ^ 53"
  "rnd64 (9 / 10) = 8106479329266893 / 2 ^ 53"
  by (simp_all add: rnd64_up [where j = 54] rnd64_up [where j = 53] rne_def)

lemma five_operative:
  "operative five_bsdf 1 1 = Some five_df"
  "dist_ptr (comp0 five_df) = MtxData five_mat"
  by (simp_all add: operative_def five_bsdf_def five_df_def)

lemma three_operative:
  "operative three_bsdf 1 1 = Some three_df"
  "dist_ptr (comp0 three_df) = MtxData three_mat"
  by (simp_all add: operative_def three_bsdf_def three_df_def)

lemma above_tested:
  "tested_pairs above_lib five_mat (bin_pairs five_mat) =
     [\<lparr>t_i = 0, t_o = 4, t_vin = (1 / 2, 0, 1), t_vout = (9 / 2, 0, - 1)\<rparr>,
      \<lparr>t_i = 0, t_o = 3, t_vin = (1 / 2, 0, 1), t_vout = (7 / 2, 0, - 1)\<rparr>,
      \<lparr>t_i = 0, t_o = 2, t_vin = (1 / 2, 0, 1), t_vout = (5 / 2, 0, - 1)\<rparr>,
      \<lparr>t_i = 0, t_o = 1, t_vin = (1 / 2, 0, 1), t_vout = (3 / 2, 0, - 1)\<rparr>,
      \<lparr>t_i = 0, t_o = 0, t_vin = (1 / 2, 0, 1), t_vout = (1 / 2, 0, - 1)\<rparr>]"
  by code_simp

lemma below_tested:
  "tested_pairs below_lib five_mat (bin_pairs five_mat) =
     [\<lparr>t_i = 0, t_o = 4, t_vin = (1 / 2, 0, 1), t_vout = (9 / 2, 0, - 1)\<rparr>,
      \<lparr>t_i = 0, t_o = 3, t_vin = (1 / 2, 0, 1), t_vout = (7 / 2, 0, - 1)\<rparr>,
      \<lparr>t_i = 0, t_o = 2, t_vin = (1 / 2, 0, 1), t_vout = (5 / 2, 0, - 1)\<rparr>,
      \<lparr>t_i = 0, t_o = 1, t_vin = (1 / 2, 0, 1), t_vout = (3 / 2, 0, - 1)\<rparr>,
      \<lparr>t_i = 0, t_o = 0, t_vin = (1 / 2, 0, 1), t_vout = (1 / 2, 0, - 1)\<rparr>]"
  by code_simp

lemma three_tested:
  "tested_pairs three_lib three_mat (bin_pairs three_mat) =
     [\<lparr>t_i = 0, t_o = 2, t_vin = (1 / 2, 0, 1), t_vout = (5 / 2, 0, - 1)\<rparr>,
      \<lparr>t_i = 0, t_o = 1, t_vin = (1 / 2, 0, 1), t_vout = (3 / 2, 0, - 1)\<rparr>,
      \<lparr>t_i = 0, t_o = 0, t_vin = (1 / 2, 0, 1), t_vout = (1 / 2, 0, - 1)\<rparr>]"
  by code_simp

lemma above_relerr:
  "relerr_dbl rnd64 above_lib m bsdf t = 9000162380323225 / 2 ^ 47"
  by (simp add: relerr_dbl_def forward_def reverse_eval_def above_lib_def uniform_lib_def
      rnd64_up [where j = 53] rnd64_up [where j = 47] rne_def)

lemma below_relerr:
  "relerr_dbl rnd64 below_lib m bsdf t = 2239485283454157 / 2 ^ 45"
  by (simp add: relerr_dbl_def forward_def reverse_eval_def below_lib_def uniform_lib_def
      rnd64_up [where j = 53] rnd64_up [where j = 47] rne_def)

lemma three_relerr:
  "relerr_dbl rnd64 three_lib m bsdf \<lparr>t_i = i, t_o = k, t_vin = v, t_vout = (5 / 2, y, z)\<rparr> =
     5629499534213119 / 2 ^ 49"
  "relerr_dbl rnd64 three_lib m bsdf \<lparr>t_i = i, t_o = k, t_vin = v, t_vout = (3 / 2, y, z)\<rparr> =
     700169004567757 / 2 ^ 46"
  "relerr_dbl rnd64 three_lib m bsdf \<lparr>t_i = i, t_o = k, t_vin = v, t_vout = (1 / 2, y, z)\<rparr> =
     2533274790395903 / 2 ^ 48"
  by (simp_all add: relerr_dbl_def forward_def reverse_eval_def reversed_def three_lib_def
      rnd64_up [where j = 56] rnd64_up [where j = 49] rne_def)

lemma above_no_fail: "\<not> fails above_lib bsdf t"
  by (simp add: fails_def reverse_eval_def above_lib_def uniform_lib_def)

lemma below_no_fail: "\<not> fails below_lib bsdf t"
  by (simp add: fails_def reverse_eval_def below_lib_def uniform_lib_def)

lemma three_no_fail: "\<not> fails three_lib bsdf t"
  by (simp add: fails_def reverse_eval_def three_lib_def)

lemma above_huge: "FHUGE above_lib = 10 ^ 10"
  by (simp add: above_lib_def uniform_lib_def)

lemma below_huge: "FHUGE below_lib = 10 ^ 10"
  by (simp add: below_lib_def uniform_lib_def)

lemma three_huge: "FHUGE three_lib = 10 ^ 10"
  by (simp add: three_lib_def)

lemma above_check:
  "checkReciprocity_dbl rnd64 above_lib ''Front Refl'' 1 1 five_bsdf F_MATRIX =
     Inr ([[Txt ''Front Refl'', Num (9000162380323225 / 2 ^ 47),
            Num (4500081190161613 / 2 ^ 46), Num (9000162380323225 / 2 ^ 47)]],
          [((9 / 2, 0, - 1), (1 / 2, 0, 1)),
           ((7 / 2, 0, - 1), (1 / 2, 0, 1)),
           ((5 / 2, 0, - 1), (1 / 2, 0, 1)),
           ((3 / 2, 0, - 1), (1 / 2, 0, 1)),
           ((1 / 2, 0, - 1), (1 / 2, 0, 1))])"
proof -
  have "checkReciprocity_dbl rnd64 above_lib ''Front Refl'' 1 1 five_bsdf F_MATRIX =
      Inr (report_dbl rnd64 ''Front Refl''
        (run_dbl rnd64 above_lib five_mat five_bsdf
          (tested_pairs above_lib five_mat (bin_pairs five_mat)) (init_locals above_lib)))"
    by (rule check_matrix_dbl [OF five_operative word_facts(4)])
  also have "\<dots> = Inr ([[Txt ''Front Refl'', Num (9000162380323225 / 2 ^ 47),
            Num (4500081190161613 / 2 ^ 46), Num (9000162380323225 / 2 ^ 47)]],
          [((9 / 2, 0, - 1), (1 / 2, 0, 1)),
           ((7 / 2, 0, - 1), (1 / 2, 0, 1)),
           ((5 / 2, 0, - 1), (1 / 2, 0, 1)),
           ((3 / 2, 0, - 1), (1 / 2, 0, 1)),
           ((1 / 2, 0, - 1), (1 / 2, 0, 1))])"
    unfolding above_tested
    by (simp add: step_dbl_def above_relerr above_no_fail above_huge add_err_dbl_def
        reversed_def init_locals_def report_dbl_def
        rnd64_up [where j = 47] rnd64_up [where j = 46] rnd64_up [where j = 45] rnd64_up [where j = 44] rne_def)
  finally show ?thesis .
qed

lemma below_check:
  "checkReciprocity_dbl rnd64 below_lib ''Front Refl'' 1 1 five_bsdf F_MATRIX =
     Inr ([[Txt ''Front Refl'', Num (2239485283454157 / 2 ^ 45),
            Num (8957941133816627 / 2 ^ 47), Num (2239485283454157 / 2 ^ 45)]],
          [((9 / 2, 0, - 1), (1 / 2, 0, 1)),
           ((7 / 2, 0, - 1), (1 / 2, 0, 1)),
           ((5 / 2, 0, - 1), (1 / 2, 0, 1)),
           ((3 / 2, 0, - 1), (1 / 2, 0, 1)),
           ((1 / 2, 0, - 1), (1 / 2, 0, 1))])"
proof -
  have "checkReciprocity_dbl rnd64 below_lib ''Front Refl'' 1 1 five_bsdf F_MATRIX =
      Inr (report_dbl rnd64 ''Front Refl''
        (run_dbl rnd64 below_lib five_mat five_bsdf
          (tested_pairs below_lib five_mat (bin_pairs five_mat)) (init_locals below_lib)))"
    by (rule check_matrix_dbl [OF five_operative word_facts(4)])
  also have "\<dots> = Inr ([[Txt ''Front Refl'', Num (2239485283454157 / 2 ^ 45),
            Num (8957941133816627 / 2 ^ 47), Num (2239485283454157 / 2 ^ 45)]],
          [((9 / 2, 0, - 1), (1 / 2, 0, 1)),
           ((7 / 2, 0, - 1), (1 / 2, 0, 1)),
           ((5 / 2, 0, - 1), (1 / 2, 0, 1)),
           ((3 / 2, 0, - 1), (1 / 2, 0, 1)),
           ((1 / 2, 0, - 1), (1 / 2, 0, 1))])"
    unfolding below_tested
    by (simp add: step_dbl_def below_relerr below_no_fail below_huge add_err_dbl_def
        reversed_def init_locals_def report_dbl_def
        rnd64_up [where j = 47] rnd64_up [where j = 46] rnd64_up [where j = 45] rnd64_up [where j = 44] rne_def)
  finally show ?thesis .
qed

lemma three_check:
  "checkReciprocity_dbl rnd64 three_lib ''Front Refl'' 1 1 three_bsdf F_MATRIX =
     Inr ([[Txt ''Front Refl'', Num (2533274790395903 / 2 ^ 48),
            Num (5432467050515661 / 2 ^ 49), Num (5629499534213119 / 2 ^ 49)]],
          [((5 / 2, 0, - 1), (1 / 2, 0, 1)),
           ((3 / 2, 0, - 1), (1 / 2, 0, 1)),
           ((1 / 2, 0, - 1), (1 / 2, 0, 1))])"
proof -
  have "checkReciprocity_dbl rnd64 three_lib ''Front Refl'' 1 1 three_bsdf F_MATRIX =
      Inr (report_dbl rnd64 ''Front Refl''
        (run_dbl rnd64 three_lib three_mat three_bsdf
          (tested_pairs three_lib three_mat (bin_pairs three_mat)) (init_locals three_lib)))"
    by (rule check_matrix_dbl [OF three_operative word_facts(4)])
  also have "\<dots> = Inr ([[Txt ''Front Refl'', Num (2533274790395903 / 2 ^ 48),
            Num (5432467050515661 / 2 ^ 49), Num (5629499534213119 / 2 ^ 49)]],
          [((5 / 2, 0, - 1), (1 / 2, 0, 1)),
           ((3 / 2, 0, - 1), (1 / 2, 0, 1)),
           ((1 / 2, 0, - 1), (1 / 2, 0, 1))])"
    unfolding three_tested
    by (simp add: step_dbl_def three_relerr three_no_fail three_huge add_err_dbl_def
        reversed_def init_locals_def report_dbl_def
        rnd64_up [where j = 49] rnd64_up [where j = 48] rne_def)
  finally show ?thesis .
qed

lemma three_ascending:
  "report_dbl rnd64 ''Front Refl''
     (visit_all_dbl rnd64 three_lib three_mat three_bsdf [(0, 0), (0, 1), (0, 2)]
        (init_locals three_lib)) =
     ([[Txt ''Front Refl'', Num (2533274790395903 / 2 ^ 48),
        Num (1358116762628915 / 2 ^ 47), Num (5629499534213119 / 2 ^ 49)]],
      [((1 / 2, 0, - 1), (1 / 2, 0, 1)),
           ((3 / 2, 0, - 1), (1 / 2, 0, 1)),
           ((5 / 2, 0, - 1), (1 / 2, 0, 1))])"
proof -
  have "tested_pairs three_lib three_mat [(0, 0), (0, 1), (0, 2)] =
     [\<lparr>t_i = 0, t_o = 0, t_vin = (1 / 2, 0, 1), t_vout = (1 / 2, 0, - 1)\<rparr>,
      \<lparr>t_i = 0, t_o = 1, t_vin = (1 / 2, 0, 1), t_vout = (3 / 2, 0, - 1)\<rparr>,
      \<lparr>t_i = 0, t_o = 2, t_vin = (1 / 2, 0, 1), t_vout = (5 / 2, 0, - 1)\<rparr>]"
    by code_simp
  then show ?thesis
    unfolding visit_all_dbl_run
    by (simp add: step_dbl_def three_relerr three_no_fail three_huge add_err_dbl_def
        reversed_def init_locals_def report_dbl_def
        rnd64_up [where j = 49] rnd64_up [where j = 48] rne_def)
qed

lemma three_bin_pairs: "bin_pairs three_mat = [(0, 2), (0, 1), (0, 0)]"
  by code_simp

lemma printed_tenths:
  "printf_1f (9000162380323225 / 2 ^ 47) = 639"
  "printf_1f (4500081190161613 / 2 ^ 46) = 640"
  "printf_1f (2239485283454157 / 2 ^ 45) = 637"
  "printf_1f (8957941133816627 / 2 ^ 47) = 636"
  "printf_1f (2533274790395903 / 2 ^ 48) = 90"
  "printf_1f (5432467050515661 / 2 ^ 49) = 97"
  "printf_1f (1358116762628915 / 2 ^ 47) = 96"
  "printf_1f (5629499534213119 / 2 ^ 49) = 100"
  by (simp_all add: printf_1f_def rne_def)

section \<open>The classifier\<close>

lemma getBSDFtype_first_slot:
  "getBSDFtype bsdf flags =
     (case first_slot bsdf of
        None \<Rightarrow> Inr (''Pure_Lambertian'', map_option (\<lambda>_. 0) flags)
      | Some d \<Rightarrow>
          if func (comp0 d) = SDhandleMtx then
            (case dist_ptr (comp0 d) of
               MtxData m \<Rightarrow>
                 Inr (klems_name (ninc m),
                      map_option
                        (\<lambda>_. F_MATRIX OR F_IN_COLOR * of_bool (chroma m \<noteq> None)) flags)
             | _ \<Rightarrow> Inl BadCast)
          else if func (comp0 d) = SDhandleTre then
            (case dist_ptr (comp0 d) of
               TreData t \<Rightarrow>
                 (case stc t 0 of
                    None \<Rightarrow> Inl NullDeref
                  | Some n \<Rightarrow>
                      if ndim n = 4 then
                        Inr (''Anisotropic_Tensor_Tree'',
                             map_option
                               (\<lambda>_. F_TTREE OR F_IN_COLOR * of_bool (stc t 1 \<noteq> None)) flags)
                      else if ndim n = 3 then
                        Inr (''Isotropic_Tensor_Tree'',
                             map_option
                               (\<lambda>_. (F_TTREE OR F_IN_COLOR * of_bool (stc t 1 \<noteq> None))
                                      OR F_ISOTROPIC) flags)
                      else
                        Inr (''Unknown_Tensor_Tree'',
                             map_option
                               (\<lambda>_. F_TTREE OR F_IN_COLOR * of_bool (stc t 1 \<noteq> None)) flags))
             | _ \<Rightarrow> Inl BadCast)
          else Inr (''Unknown'', map_option (\<lambda>_. 0) flags))"
  by (cases flags)
     (auto simp: getBSDFtype_def first_slot_def Let_def split: option.splits SDdist.splits)

text \<open>
  Claim C4, as amended. The classifier looks at the first slot present in the order
  \<^verbatim>\<open>tb\<close>, \<^verbatim>\<open>tf\<close>, \<^verbatim>\<open>rf\<close>, \<^verbatim>\<open>rb\<close>. If all four are absent it returns the string
  \<^verbatim>\<open>Pure_Lambertian\<close> and clears the flags. If the first component of that slot is
  handled by \<^verbatim>\<open>SDhandleMtx\<close>, its data being an \<^verbatim>\<open>SDMat\<close>, the row count 145 gives
  \<^verbatim>\<open>Klems_Full\<close>, 73 gives \<^verbatim>\<open>Klems_Half\<close>, 41 gives \<^verbatim>\<open>Klems_Quarter\<close>, any other
  count gives \<^verbatim>\<open>Unknown_Matrix\<close>; the flags are then exactly \<^verbatim>\<open>F_MATRIX\<close>, together
  with \<^verbatim>\<open>F_IN_COLOR\<close> if and only if the matrix has chroma data. The strings are
  spelled with underscores.
\<close>

theorem classifier_matrix:
  "(first_slot bsdf = None \<longrightarrow>
      getBSDFtype bsdf (Some f0) = Inr (''Pure_Lambertian'', Some 0)) \<and>
   (first_slot bsdf = Some d \<and> func (comp0 d) = SDhandleMtx \<and>
    dist_ptr (comp0 d) = MtxData m \<longrightarrow>
      getBSDFtype bsdf (Some f0) =
        Inr (if ninc m = 145 then ''Klems_Full''
             else if ninc m = 73 then ''Klems_Half''
             else if ninc m = 41 then ''Klems_Quarter''
             else ''Unknown_Matrix'',
             Some (if chroma m \<noteq> None then F_MATRIX OR F_IN_COLOR else F_MATRIX)))"
  by (simp add: getBSDFtype_first_slot klems_name_def)

theorem classifier_matrix_witness:
  "first_slot no_bsdf = None \<and>
   getBSDFtype no_bsdf (Some 7) = Inr (''Pure_Lambertian'', Some 0) \<and>
   first_slot full_bsdf = Some full_df \<and> func (comp0 full_df) = SDhandleMtx \<and>
   dist_ptr (comp0 full_df) = MtxData klems_full \<and>
   getBSDFtype full_bsdf (Some 7) = Inr (''Klems_Full'', Some 5)"
proof -
  have a: "first_slot no_bsdf = None"
    by (simp add: first_slot_def no_bsdf_def)
  have b: "first_slot full_bsdf = Some full_df \<and> func (comp0 full_df) = SDhandleMtx \<and>
      dist_ptr (comp0 full_df) = MtxData klems_full"
    by (simp add: first_slot_def full_bsdf_def full_df_def)
  have c: "ninc klems_full = 145" "chroma klems_full \<noteq> None"
    by (simp_all add: klems_full_def)
  have d: "F_MATRIX OR F_IN_COLOR = 5"
    by (simp add: F_MATRIX_def F_IN_COLOR_def)
  from classifier_matrix [where bsdf = no_bsdf and ?f0.0 = 7] a
  have "getBSDFtype no_bsdf (Some 7) = Inr (''Pure_Lambertian'', Some 0)"
    by simp
  moreover from classifier_matrix [where bsdf = full_bsdf and ?f0.0 = 7
      and d = full_df and m = klems_full] b c d
  have "getBSDFtype full_bsdf (Some 7) = Inr (''Klems_Full'', Some 5)"
    by simp
  ultimately show ?thesis using a b by simp
qed

text \<open>The strings with a blank, as the claim spells them, are not what is returned.\<close>

theorem classifier_matrix_counterexample:
  "getBSDFtype no_bsdf (Some 0) = Inr (''Pure_Lambertian'', Some 0) \<and>
   getBSDFtype no_bsdf (Some 0) \<noteq> Inr (''Pure Lambertian'', Some 0) \<and>
   getBSDFtype full_bsdf (Some 0) = Inr (''Klems_Full'', Some 5) \<and>
   getBSDFtype full_bsdf (Some 0) \<noteq> Inr (''Klems Full'', Some 5)"
  by (simp add: getBSDFtype_first_slot first_slot_def no_bsdf_def full_bsdf_def full_df_def
      klems_full_def klems_name_def F_MATRIX_def F_IN_COLOR_def)

text \<open>
  Claim C5, as amended. When the first component of the selected slot is handled by
  \<^verbatim>\<open>SDhandleTre\<close>, its data being an \<^verbatim>\<open>SDTre\<close> whose primary tree \<^verbatim>\<open>stc[0]\<close> is
  present, dimension 4 gives \<^verbatim>\<open>Anisotropic_Tensor_Tree\<close> without \<^verbatim>\<open>F_ISOTROPIC\<close>,
  dimension 3 gives
  \<^verbatim>\<open>Isotropic_Tensor_Tree\<close> with \<^verbatim>\<open>F_ISOTROPIC\<close>, any other dimension gives
  \<^verbatim>\<open>Unknown_Tensor_Tree\<close>; \<^verbatim>\<open>F_TTREE\<close> is set, and \<^verbatim>\<open>F_IN_COLOR\<close> is set if and only
  if the second tree \<^verbatim>\<open>stc[1]\<close> is present. The strings are spelled with underscores.
\<close>

theorem classifier_tree:
  "first_slot bsdf = Some d \<and> func (comp0 d) = SDhandleTre \<and>
   dist_ptr (comp0 d) = TreData t \<and> stc t 0 = Some n \<longrightarrow>
     getBSDFtype bsdf (Some f0) =
       Inr (if ndim n = 4 then ''Anisotropic_Tensor_Tree''
            else if ndim n = 3 then ''Isotropic_Tensor_Tree''
            else ''Unknown_Tensor_Tree'',
            Some ((F_TTREE OR (if stc t 1 \<noteq> None then F_IN_COLOR else 0)) OR
                  (if ndim n = 3 then F_ISOTROPIC else 0)))"
  by (simp add: getBSDFtype_first_slot)

theorem classifier_tree_witness:
  "first_slot tree_bsdf = Some tree_df \<and> func (comp0 tree_df) = SDhandleTre \<and>
   dist_ptr (comp0 tree_df) = TreData iso_tree \<and> stc iso_tree 0 = Some \<lparr>ndim = 3\<rparr> \<and>
   getBSDFtype tree_bsdf (Some 7) = Inr (''Isotropic_Tensor_Tree'', Some 10)"
proof -
  have a: "first_slot tree_bsdf = Some tree_df \<and> func (comp0 tree_df) = SDhandleTre \<and>
      dist_ptr (comp0 tree_df) = TreData iso_tree \<and> stc iso_tree 0 = Some \<lparr>ndim = 3\<rparr>"
    by (simp add: first_slot_def tree_bsdf_def tree_df_def iso_tree_def)
  have b: "stc iso_tree 1 = None"
    by (simp add: iso_tree_def)
  have c: "F_TTREE OR F_ISOTROPIC = 10"
    by (simp add: F_TTREE_def F_ISOTROPIC_def)
  from classifier_tree [where bsdf = tree_bsdf and d = tree_df and t = iso_tree
      and n = "\<lparr>ndim = 3\<rparr>" and ?f0.0 = 7] a b c
  have "getBSDFtype tree_bsdf (Some 7) = Inr (''Isotropic_Tensor_Tree'', Some 10)"
    by simp
  with a show ?thesis by simp
qed

text \<open>The string with blanks, as the claim spells it, is not what is returned.\<close>

theorem classifier_tree_counterexample:
  "getBSDFtype tree_bsdf (Some 0) = Inr (''Isotropic_Tensor_Tree'', Some 10) \<and>
   getBSDFtype tree_bsdf (Some 0) \<noteq> Inr (''Isotropic Tensor Tree'', Some 10)"
  by (simp add: getBSDFtype_first_slot first_slot_def tree_bsdf_def tree_df_def iso_tree_def
      F_TTREE_def F_ISOTROPIC_def)

section \<open>The Lambertian summary\<close>



section \<open>The reciprocity check\<close>

text \<open>
  Claim C3. With equal sides the check works on \<^verbatim>\<open>rf\<close> (front side, \<^verbatim>\<open>side1 > 0\<close>) or
  on \<^verbatim>\<open>rb\<close> (back side) and prints the line of zeros (``no data'') when that slot
  is absent; with different sides it works on \<^verbatim>\<open>tf\<close> and prints the line of zeros
  when \<^verbatim>\<open>tf\<close> or \<^verbatim>\<open>tb\<close> is absent; and when \<^verbatim>\<open>F_MATRIX\<close> is not set in the flags it
  prints the line of zeros whatever the slots hold.
\<close>

theorem slot_selection:
  "(side1 = side2 \<and> 0 < sint side1 \<longrightarrow>
      checkReciprocity L nm side1 side2 bsdf fl =
        (case rf bsdf of
           None \<Rightarrow> Inr ([nothing2do nm], [])
         | Some d \<Rightarrow> check_df L nm bsdf fl d)) \<and>
   (side1 = side2 \<and> \<not> 0 < sint side1 \<longrightarrow>
      checkReciprocity L nm side1 side2 bsdf fl =
        (case rb bsdf of
           None \<Rightarrow> Inr ([nothing2do nm], [])
         | Some d \<Rightarrow> check_df L nm bsdf fl d)) \<and>
   (side1 \<noteq> side2 \<longrightarrow>
      checkReciprocity L nm side1 side2 bsdf fl =
        (if tf bsdf = None \<or> tb bsdf = None then Inr ([nothing2do nm], [])
         else case tf bsdf of
           None \<Rightarrow> Inr ([nothing2do nm], [])
         | Some d \<Rightarrow> check_df L nm bsdf fl d)) \<and>
   (fl AND F_MATRIX = 0 \<longrightarrow>
      checkReciprocity L nm side1 side2 bsdf fl = Inr ([nothing2do nm], []))"
  by (simp add: checkReciprocity_operative operative_def check_df_no_flag split: option.splits)

theorem slot_selection_witness:
  "0 < sint (1 :: cint) \<and>
   checkReciprocity ex_lib ''Front Refl'' 1 1 ex_bsdf F_MATRIX =
     Inr ([[Txt ''Front Refl'', Num 50, Num (250 / 3), Num 100]],
          [((3 / 2, 0, - 1), (3 / 2, 0, 1)), ((1 / 2, 0, - 1), (3 / 2, 0, 1)),
           ((3 / 2, 0, - 1), (1 / 2, 0, 1))]) \<and>
   \<not> 0 < sint (- 1 :: cint) \<and>
   checkReciprocity ex_lib ''Back Refl'' (- 1) (- 1) ex_bsdf F_MATRIX =
     Inr ([[Txt ''Back Refl'', Txt ''0'', Txt ''0'', Txt ''0'']], []) \<and>
   (- 1 :: cint) \<noteq> 1 \<and>
   checkReciprocity ex_lib ''Transmission'' (- 1) 1 ex_bsdf F_MATRIX =
     Inr ([[Txt ''Transmission'', Txt ''0'', Txt ''0'', Txt ''0'']], []) \<and>
   F_TTREE AND F_MATRIX = 0 \<and>
   checkReciprocity ex_lib ''Front Refl'' 1 1 ex_bsdf F_TTREE =
     Inr ([[Txt ''Front Refl'', Txt ''0'', Txt ''0'', Txt ''0'']], [])"
proof -
  have s: "rf ex_bsdf = Some ex_df" "rb ex_bsdf = None" "tf ex_bsdf = None"
    by (simp_all add: ex_bsdf_def)
  have fr: "(1 :: cint) = 1 \<and> 0 < sint (1 :: cint)"
    and bk: "(- 1 :: cint) = - 1 \<and> \<not> 0 < sint (- 1 :: cint)"
    by (simp_all add: word_facts)
  note sel = slot_selection [where bsdf = ex_bsdf and L = ex_lib]
  from sel [where ?side1.0 = 1 and ?side2.0 = 1, THEN conjunct1, THEN mp, OF fr]
  have a: "checkReciprocity ex_lib ''Front Refl'' 1 1 ex_bsdf F_MATRIX =
     Inr ([[Txt ''Front Refl'', Num 50, Num (250 / 3), Num 100]],
          [((3 / 2, 0, - 1), (3 / 2, 0, 1)), ((1 / 2, 0, - 1), (3 / 2, 0, 1)),
           ((3 / 2, 0, - 1), (1 / 2, 0, 1))])"
    by (simp add: s ex_front)
  from sel [where ?side1.0 = "- 1" and ?side2.0 = "- 1",
      THEN conjunct2, THEN conjunct1, THEN mp, OF bk]
  have b: "checkReciprocity ex_lib ''Back Refl'' (- 1) (- 1) ex_bsdf F_MATRIX =
     Inr ([[Txt ''Back Refl'', Txt ''0'', Txt ''0'', Txt ''0'']], [])"
    by (simp add: s nothing2do_def)
  from sel [where ?side1.0 = "- 1" and ?side2.0 = 1,
      THEN conjunct2, THEN conjunct2, THEN conjunct1, THEN mp, OF word_facts(3)]
  have c: "checkReciprocity ex_lib ''Transmission'' (- 1) 1 ex_bsdf F_MATRIX =
     Inr ([[Txt ''Transmission'', Txt ''0'', Txt ''0'', Txt ''0'']], [])"
    by (simp add: s nothing2do_def)
  from sel [where ?side1.0 = 1 and ?side2.0 = 1,
      THEN conjunct2, THEN conjunct2, THEN conjunct2, THEN mp, OF word_facts(5)]
  have d: "checkReciprocity ex_lib ''Front Refl'' 1 1 ex_bsdf F_TTREE =
     Inr ([[Txt ''Front Refl'', Txt ''0'', Txt ''0'', Txt ''0'']], [])"
    by (simp add: nothing2do_def)
  from a b c d show ?thesis
    by (simp only: word_facts simp_thms)
qed

text \<open>
  Claim C10. The check never reads the \<^verbatim>\<open>func\<close> field of the slot it works on: its
  result is the one it computes after that field is overwritten with any value \<open>f\<close>.
  The flag \<^verbatim>\<open>F_MATRIX\<close> alone decides whether line 98 reads the first component's data
  as an \<^verbatim>\<open>SDMat\<close>; when the data is something else this is a read through a
  pointer of the wrong type. The witness is a dataset whose flags \<^verbatim>\<open>getBSDFtype\<close>
  derives from the matrix in \<^verbatim>\<open>tb\<close>, while the check of the front side reads the
  tensor tree in \<^verbatim>\<open>rf\<close> as a matrix.
\<close>

theorem flag_dispatch:
  "operative bsdf side1 side2 = Some d \<longrightarrow>
     checkReciprocity L nm side1 side2 bsdf fl =
       check_df L nm bsdf fl (d\<lparr>comp0 := (comp0 d)\<lparr>func := f\<rparr>\<rparr>) \<and>
     (fl AND F_MATRIX \<noteq> 0 \<longrightarrow>
        checkReciprocity L nm side1 side2 bsdf fl =
          (case dist_ptr (comp0 d) of
             MtxData m \<Rightarrow> Inr (report nm (inc_loop L m bsdf (ninc m) (init_locals L)))
           | _ \<Rightarrow> Inl BadCast))"
  by (simp add: checkReciprocity_operative check_df_func) (simp add: check_df_def)

theorem flag_dispatch_witness:
  "getBSDFtype mixed_bsdf (Some 0) = Inr (''Unknown_Matrix'', Some F_MATRIX) \<and>
   operative mixed_bsdf 1 1 = Some tree_df \<and> func (comp0 tree_df) = SDhandleTre \<and>
   F_MATRIX AND F_MATRIX \<noteq> 0 \<and>
   checkReciprocity ex_lib ''Front Refl'' 1 1 mixed_bsdf F_MATRIX = Inl BadCast \<and>
   checkReciprocity ex_lib ''Front Refl'' 1 1 mixed_bsdf F_MATRIX =
     check_df ex_lib ''Front Refl'' mixed_bsdf F_MATRIX
       (tree_df\<lparr>comp0 := (comp0 tree_df)\<lparr>func := SDhandleMtx\<rparr>\<rparr>)"
proof -
  have a: "getBSDFtype mixed_bsdf (Some 0) = Inr (''Unknown_Matrix'', Some F_MATRIX)"
    by (simp add: getBSDFtype_first_slot first_slot_def mixed_bsdf_def ex_df_def ex_mat_def
        klems_name_def)
  have b: "operative mixed_bsdf 1 1 = Some tree_df"
    by (simp add: operative_def mixed_bsdf_def)
  have c: "func (comp0 tree_df) = SDhandleTre" "dist_ptr (comp0 tree_df) = TreData iso_tree"
    by (simp_all add: tree_df_def)
  note disp = flag_dispatch [where bsdf = mixed_bsdf and ?side1.0 = 1 and ?side2.0 = 1
      and d = tree_df and L = ex_lib and nm = "''Front Refl''" and fl = F_MATRIX
      and f = SDhandleMtx, THEN mp, OF b]
  note d = disp [THEN conjunct1]
  from disp [THEN conjunct2, THEN mp, OF word_facts(4)]
  have e: "checkReciprocity ex_lib ''Front Refl'' 1 1 mixed_bsdf F_MATRIX = Inl BadCast"
    by (simp add: c)
  from a b c(1) word_facts(4) e d show ?thesis
    by blast
qed

text \<open>
  Claim C1. In the matrix check, the calls of \<^verbatim>\<open>SDevalBSDF\<close> are, in order, those for
  the tested pairs up to the first failing one. Each call passes the reconstructed
  outgoing direction of a bin pair \<open>(i, ob)\<close> with forward value above \<^verbatim>\<open>FTINY\<close> as
  \<^verbatim>\<open>inVec\<close> and its reconstructed incoming direction as \<^verbatim>\<open>outVec\<close>; and when a
  line is printed, every such bin pair has been evaluated in this way.
\<close>

theorem reversed_queries:
  "operative bsdf side1 side2 = Some d \<and> dist_ptr (comp0 d) = MtxData m \<and>
   fl AND F_MATRIX \<noteq> 0 \<longrightarrow>
     (\<exists>out qs.
        checkReciprocity L nm side1 side2 bsdf fl = Inr (out, qs) \<and>
        qs = map reversed (upto_fail (fails L bsdf) (tested_pairs L m (bin_pairs m))) \<and>
        (\<forall>q\<in>set qs. \<exists>i<ninc m. \<exists>ob<nout m.
           mBSDF_outvec L m (real ob + 0.5) = Some (fst q) \<and>
           mBSDF_incvec L m (real i + 0.5) = Some (snd q) \<and>
           FTINY L < mBSDF_value L m ob i) \<and>
        (out \<noteq> [] \<longrightarrow>
           (\<forall>i<ninc m. \<forall>ob<nout m. \<forall>vin vout.
              mBSDF_incvec L m (real i + 0.5) = Some vin \<and>
              mBSDF_outvec L m (real ob + 0.5) = Some vout \<and>
              FTINY L < mBSDF_value L m ob i \<longrightarrow> (vout, vin) \<in> set qs)))"
proof (intro impI)
  assume a: "operative bsdf side1 side2 = Some d \<and> dist_ptr (comp0 d) = MtxData m \<and>
    fl AND F_MATRIX \<noteq> 0"
  define ts where "ts = tested_pairs L m (bin_pairs m)"
  define r where "r = run L m bsdf ts (init_locals L)"
  define qs where "qs = map reversed (upto_fail (fails L bsdf) ts)"
  from a have c: "checkReciprocity L nm side1 side2 bsdf fl = Inr (report nm r)"
    by (simp add: check_matrix r_def ts_def)
  have q: "snd (report nm r) = qs"
    by (simp add: snd_report r_def run_asked qs_def init_locals_def)
  have sound: "\<exists>i<ninc m. \<exists>ob<nout m.
      mBSDF_outvec L m (real ob + 0.5) = Some (fst q) \<and>
      mBSDF_incvec L m (real i + 0.5) = Some (snd q) \<and>
      FTINY L < mBSDF_value L m ob i" if "q \<in> set qs" for q
  proof -
    from that obtain t where t: "t \<in> set ts" "q = reversed t"
      using set_upto_fail [of "fails L bsdf" ts] by (auto simp: qs_def)
    then obtain p where p: "p \<in> set (bin_pairs m)" "sample L m p = Some t"
      by (auto simp: ts_def set_tested_pairs)
    then have "fst p < ninc m" "snd p < nout m"
      by (auto simp: set_bin_pairs)
    with p t show ?thesis
      by (auto simp: sample_Some reversed_def)
  qed
  have complete: "(vout, vin) \<in> set qs"
    if "fst (report nm r) \<noteq> []" "i < ninc m" "ob < nout m"
      "mBSDF_incvec L m (real i + 0.5) = Some vin"
      "mBSDF_outvec L m (real ob + 0.5) = Some vout"
      "FTINY L < mBSDF_value L m ob i" for i ob vin vout
  proof -
    from that(1) have "\<forall>t\<in>set ts. \<not> fails L bsdf t"
      using run_Inr_iff [of L m bsdf ts "init_locals L"]
      by (simp add: fst_report_nonempty r_def)
    then have e: "qs = map reversed ts"
      by (simp add: qs_def upto_fail_none)
    let ?t = "\<lparr>t_i = i, t_o = ob, t_vin = vin, t_vout = vout\<rparr>"
    from that have "sample L m (i, ob) = Some ?t"
      by (simp add: sample_Some)
    moreover from that have "(i, ob) \<in> set (bin_pairs m)"
      by (simp add: set_bin_pairs)
    ultimately have "?t \<in> set ts"
      by (auto simp: ts_def set_tested_pairs)
    then have "reversed ?t \<in> set qs"
      by (simp add: e)
    then show ?thesis by (simp add: reversed_def)
  qed
  have "checkReciprocity L nm side1 side2 bsdf fl = Inr (fst (report nm r), qs)"
    using c q by (metis prod.collapse)
  with sound complete show "\<exists>out qs.
        checkReciprocity L nm side1 side2 bsdf fl = Inr (out, qs) \<and>
        qs = map reversed (upto_fail (fails L bsdf) (tested_pairs L m (bin_pairs m))) \<and>
        (\<forall>q\<in>set qs. \<exists>i<ninc m. \<exists>ob<nout m.
           mBSDF_outvec L m (real ob + 0.5) = Some (fst q) \<and>
           mBSDF_incvec L m (real i + 0.5) = Some (snd q) \<and>
           FTINY L < mBSDF_value L m ob i) \<and>
        (out \<noteq> [] \<longrightarrow>
           (\<forall>i<ninc m. \<forall>ob<nout m. \<forall>vin vout.
              mBSDF_incvec L m (real i + 0.5) = Some vin \<and>
              mBSDF_outvec L m (real ob + 0.5) = Some vout \<and>
              FTINY L < mBSDF_value L m ob i \<longrightarrow> (vout, vin) \<in> set qs))"
    unfolding qs_def ts_def by blast
qed

theorem reversed_queries_witness:
  "operative ex_bsdf 1 1 = Some ex_df \<and> dist_ptr (comp0 ex_df) = MtxData ex_mat \<and>
   F_MATRIX AND F_MATRIX \<noteq> 0 \<and>
   mBSDF_outvec ex_lib ex_mat (real 0 + 0.5) = Some (1 / 2, 0, - 1) \<and>
   mBSDF_incvec ex_lib ex_mat (real 1 + 0.5) = Some (3 / 2, 0, 1) \<and>
   FTINY ex_lib < mBSDF_value ex_lib ex_mat 0 1 \<and>
   map reversed (upto_fail (fails ex_lib ex_bsdf) (tested_pairs ex_lib ex_mat (bin_pairs ex_mat))) =
     [((3 / 2, 0, - 1), (3 / 2, 0, 1)), ((1 / 2, 0, - 1), (3 / 2, 0, 1)),
      ((3 / 2, 0, - 1), (1 / 2, 0, 1))]"
proof -
  from reversed_queries [where bsdf = ex_bsdf and ?side1.0 = 1 and ?side2.0 = 1
      and d = ex_df and m = ex_mat and fl = F_MATRIX and L = ex_lib
      and nm = "''Front Refl''", THEN mp, OF ex_operative]
  obtain out qs where
    c: "checkReciprocity ex_lib ''Front Refl'' 1 1 ex_bsdf F_MATRIX = Inr (out, qs)" and
    q: "qs = map reversed
          (upto_fail (fails ex_lib ex_bsdf) (tested_pairs ex_lib ex_mat (bin_pairs ex_mat)))"
    by blast
  from c have "qs = [((3 / 2, 0, - 1), (3 / 2, 0, 1)), ((1 / 2, 0, - 1), (3 / 2, 0, 1)),
      ((3 / 2, 0, - 1), (1 / 2, 0, 1))]"
    by (simp add: ex_front_check)
  with q have "map reversed
      (upto_fail (fails ex_lib ex_bsdf) (tested_pairs ex_lib ex_mat (bin_pairs ex_mat))) =
     [((3 / 2, 0, - 1), (3 / 2, 0, 1)), ((1 / 2, 0, - 1), (3 / 2, 0, 1)),
      ((3 / 2, 0, - 1), (1 / 2, 0, 1))]"
    by simp
  moreover have "mBSDF_outvec ex_lib ex_mat (real 0 + 0.5) = Some (1 / 2, 0, - 1) \<and>
      mBSDF_incvec ex_lib ex_mat (real 1 + 0.5) = Some (3 / 2, 0, 1) \<and>
      FTINY ex_lib < mBSDF_value ex_lib ex_mat 0 1"
    by (simp add: ex_lib_def)
  ultimately show ?thesis using ex_operative by simp
qed

text \<open>
  Claim C7. If the evaluation fails for a tested pair, the check returns at the first
  such pair \<open>u\<close>: nothing is written to \<^verbatim>\<open>stdout\<close> (no statistic, not even over the
  pairs \<open>ts1\<close> already accumulated), and the calls of \<^verbatim>\<open>SDevalBSDF\<close> end with the one
  for \<open>u\<close>, so none of the later tested pairs \<open>ts2\<close> is evaluated.
\<close>

theorem abort_on_failure:
  "operative bsdf side1 side2 = Some d \<and> dist_ptr (comp0 d) = MtxData m \<and>
   fl AND F_MATRIX \<noteq> 0 \<and>
   t \<in> set (tested_pairs L m (bin_pairs m)) \<and> fails L bsdf t \<longrightarrow>
     (\<exists>ts1 u ts2.
        tested_pairs L m (bin_pairs m) = ts1 @ u # ts2 \<and>
        (\<forall>v\<in>set ts1. \<not> fails L bsdf v) \<and> fails L bsdf u \<and>
        checkReciprocity L nm side1 side2 bsdf fl = Inr ([], map reversed (ts1 @ [u])))"
proof (intro impI)
  assume a: "operative bsdf side1 side2 = Some d \<and> dist_ptr (comp0 d) = MtxData m \<and>
    fl AND F_MATRIX \<noteq> 0 \<and>
    t \<in> set (tested_pairs L m (bin_pairs m)) \<and> fails L bsdf t"
  define ts where "ts = tested_pairs L m (bin_pairs m)"
  from a have f: "\<exists>t\<in>set ts. fails L bsdf t"
    by (auto simp: ts_def)
  from upto_fail_split [OF f] obtain ts1 u ts2 where
    h: "ts = ts1 @ u # ts2" "\<forall>v\<in>set ts1. \<not> fails L bsdf v" "fails L bsdf u"
      "upto_fail (fails L bsdf) ts = ts1 @ [u]"
    by blast
  from a have "checkReciprocity L nm side1 side2 bsdf fl =
      Inr (report nm (run L m bsdf ts (init_locals L)))"
    by (simp add: check_matrix ts_def)
  also have "\<dots> = Inr ([], map reversed (ts1 @ [u]))"
    by (simp add: run_fail [OF f] report_def init_locals_def h(4))
  finally show "\<exists>ts1 u ts2.
        tested_pairs L m (bin_pairs m) = ts1 @ u # ts2 \<and>
        (\<forall>v\<in>set ts1. \<not> fails L bsdf v) \<and> fails L bsdf u \<and>
        checkReciprocity L nm side1 side2 bsdf fl = Inr ([], map reversed (ts1 @ [u]))"
    using h(1,2,3) unfolding ts_def by blast
qed

theorem abort_on_failure_witness:
  "operative ex_bsdf 1 1 = Some ex_df \<and> dist_ptr (comp0 ex_df) = MtxData ex_mat \<and>
   F_MATRIX AND F_MATRIX \<noteq> 0 \<and>
   \<lparr>t_i = 1, t_o = 0, t_vin = (3 / 2, 0, 1), t_vout = (1 / 2, 0, - 1)\<rparr>
     \<in> set (tested_pairs fail_lib ex_mat (bin_pairs ex_mat)) \<and>
   fails fail_lib ex_bsdf \<lparr>t_i = 1, t_o = 0, t_vin = (3 / 2, 0, 1), t_vout = (1 / 2, 0, - 1)\<rparr> \<and>
   (\<exists>ts1 u ts2.
      tested_pairs fail_lib ex_mat (bin_pairs ex_mat) = ts1 @ u # ts2 \<and>
      map reversed (ts1 @ [u]) =
        [((3 / 2, 0, - 1), (3 / 2, 0, 1)), ((1 / 2, 0, - 1), (3 / 2, 0, 1))] \<and>
      length ts2 = 1 \<and>
      checkReciprocity fail_lib ''Front Refl'' 1 1 ex_bsdf F_MATRIX =
        Inr ([], map reversed (ts1 @ [u])))"
proof -
  let ?t = "\<lparr>t_i = 1, t_o = 0, t_vin = (3 / 2, 0, 1), t_vout = (1 / 2, 0, - 1)\<rparr>"
  have "?t \<in> set (tested_pairs fail_lib ex_mat (bin_pairs ex_mat))"
    by (subst fail_tested) simp
  with ex_operative fail_fails(1)
  have h: "operative ex_bsdf 1 1 = Some ex_df \<and> dist_ptr (comp0 ex_df) = MtxData ex_mat \<and>
      F_MATRIX AND F_MATRIX \<noteq> 0 \<and>
      ?t \<in> set (tested_pairs fail_lib ex_mat (bin_pairs ex_mat)) \<and> fails fail_lib ex_bsdf ?t"
    by blast
  from abort_on_failure [where bsdf = ex_bsdf and ?side1.0 = 1 and ?side2.0 = 1
      and d = ex_df and m = ex_mat and fl = F_MATRIX and L = fail_lib and t = ?t
      and nm = "''Front Refl''", THEN mp, OF h]
  obtain ts1 u ts2 where
    s: "tested_pairs fail_lib ex_mat (bin_pairs ex_mat) = ts1 @ u # ts2" and
    c: "checkReciprocity fail_lib ''Front Refl'' 1 1 ex_bsdf F_MATRIX =
          Inr ([], map reversed (ts1 @ [u]))"
    by blast
  from c have q: "map reversed (ts1 @ [u]) =
      [((3 / 2, 0, - 1), (3 / 2, 0, 1)), ((1 / 2, 0, - 1), (3 / 2, 0, 1))]"
    by (simp add: fail_check)
  then have "length (map reversed (ts1 @ [u])) = 2"
    by simp
  then have "length ts1 = 1"
    by simp
  moreover from s have "length (ts1 @ u # ts2) = 3"
    by (simp add: fail_tested flip: s)
  ultimately have l: "length ts2 = 1"
    by simp
  have "\<exists>ts1 u ts2.
      tested_pairs fail_lib ex_mat (bin_pairs ex_mat) = ts1 @ u # ts2 \<and>
      map reversed (ts1 @ [u]) =
        [((3 / 2, 0, - 1), (3 / 2, 0, 1)), ((1 / 2, 0, - 1), (3 / 2, 0, 1))] \<and>
      length ts2 = 1 \<and>
      checkReciprocity fail_lib ''Front Refl'' 1 1 ex_bsdf F_MATRIX =
        Inr ([], map reversed (ts1 @ [u]))"
  proof (intro exI conjI)
    show "tested_pairs fail_lib ex_mat (bin_pairs ex_mat) = ts1 @ u # ts2" by (rule s)
    show "map reversed (ts1 @ [u]) =
        [((3 / 2, 0, - 1), (3 / 2, 0, 1)), ((1 / 2, 0, - 1), (3 / 2, 0, 1))]" by (rule q)
    show "length ts2 = 1" by (rule l)
    show "checkReciprocity fail_lib ''Front Refl'' 1 1 ex_bsdf F_MATRIX =
        Inr ([], map reversed (ts1 @ [u]))" by (rule c)
  qed
  with h show ?thesis
    by (simp only: simp_thms)
qed

text \<open>
  Claim C9, as amended. In double precision, whenever the check prints a statistic
  (which it does exactly when at least one pair was tested and no evaluation failed),
  the printed minimum, mean and maximum are non-negative, and the minimum is at most
  the maximum. The rounding function is any one that never turns a non-negative number
  into a negative one, as \<open>rnd64\<close> is (lemma \<open>rnd64_nonneg_rounding\<close>); the constants
  \<^verbatim>\<open>FTINY\<close> and \<^verbatim>\<open>FHUGE\<close> are taken to be non-negative. That the mean lies between the
  minimum and the maximum is not part of the statement: it does not hold of the
  rounded mean, as the two runs after the theorem show.
\<close>

theorem statistics_nonnegative:
  "nonneg_rounding R \<and> 0 \<le> FTINY L \<and> 0 \<le> FHUGE L \<and>
   checkReciprocity_dbl R L nm side1 side2 bsdf fl =
     Inr ([[Txt nm', Num mn, Num av, Num mx]], qs) \<longrightarrow>
     0 \<le> mn \<and> mn \<le> mx \<and> 0 \<le> av"
proof (intro impI)
  assume a: "nonneg_rounding R \<and> 0 \<le> FTINY L \<and> 0 \<le> FHUGE L \<and>
    checkReciprocity_dbl R L nm side1 side2 bsdf fl =
      Inr ([[Txt nm', Num mn, Num av, Num mx]], qs)"
  then have R: "nonneg_rounding R" and ft: "0 \<le> FTINY L" and fh: "0 \<le> FHUGE L"
    by blast+
  from a obtain d where d: "operative bsdf side1 side2 = Some d"
    and c: "check_df_dbl R L nm bsdf fl d = Inr ([[Txt nm', Num mn, Num av, Num mx]], qs)"
    by (auto simp: checkReciprocity_dbl_operative nothing2do_def split: option.splits)
  from c have fl: "fl AND F_MATRIX \<noteq> 0"
    by (auto simp: check_df_dbl_def report_dbl_def init_locals_def nothing2do_def
        split: if_splits)
  with c obtain m where m: "dist_ptr (comp0 d) = MtxData m"
    by (auto simp: check_df_dbl_def split: SDdist.splits)
  define ts where "ts = tested_pairs L m (bin_pairs m)"
  from a d m fl have "report_dbl R nm (run_dbl R L m bsdf ts (init_locals L)) =
      ([[Txt nm', Num mn, Num av, Num mx]], qs)"
    by (simp add: check_matrix_dbl ts_def)
  from report_dbl_stats [OF this] obtain s where
    s: "run_dbl R L m bsdf ts (init_locals L) = Inr s" "ntested s \<noteq> 0" "mn = emin s"
      "av = R (esum s / real (ntested s))" "mx = emax s"
    by blast
  from fh have "nonneg_stats (init_locals L)"
    by (simp add: nonneg_stats_def init_locals_def)
  moreover from R ft have "\<forall>t\<in>set ts. 0 \<le> relerr_dbl R L m bsdf t"
    by (simp add: ts_def relerr_dbl_nonneg)
  ultimately have n: "nonneg_stats s"
    using run_dbl_nonneg [OF s(1) R] by simp
  then have "0 \<le> esum s / real (ntested s)"
    by (simp add: nonneg_stats_def)
  with R have "0 \<le> R (esum s / real (ntested s))" by (simp add: nonneg_rounding_def)
  with n s(2,3,4,5) show "0 \<le> mn \<and> mn \<le> mx \<and> 0 \<le> av"
    by (simp add: nonneg_stats_def)
qed

theorem statistics_nonnegative_witness:
  "nonneg_rounding rnd64 \<and> 0 \<le> FTINY three_lib \<and> 0 \<le> FHUGE three_lib \<and>
   checkReciprocity_dbl rnd64 three_lib ''Front Refl'' 1 1 three_bsdf F_MATRIX =
     Inr ([[Txt ''Front Refl'', Num (2533274790395903 / 2 ^ 48),
            Num (5432467050515661 / 2 ^ 49), Num (5629499534213119 / 2 ^ 49)]],
          [((5 / 2, 0, - 1), (1 / 2, 0, 1)),
           ((3 / 2, 0, - 1), (1 / 2, 0, 1)),
           ((1 / 2, 0, - 1), (1 / 2, 0, 1))]) \<and>
   (0 :: real) \<le> 2533274790395903 / 2 ^ 48 \<and>
   (2533274790395903 / 2 ^ 48 :: real) \<le> 5629499534213119 / 2 ^ 49 \<and>
   (0 :: real) \<le> 5432467050515661 / 2 ^ 49"
proof -
  have f: "0 \<le> FTINY three_lib" "0 \<le> FHUGE three_lib"
    by (simp_all add: three_lib_def)
  note h = conjI [OF rnd64_nonneg_rounding conjI [OF f(1) conjI [OF f(2) three_check]]]
  from statistics_nonnegative [THEN mp, OF h] h show ?thesis
    by (elim conjE, intro conjI) assumption+
qed

text \<open>
  Two runs in which the mean leaves the interval from the minimum to the maximum, with
  five tested pairs of forward value \<open>1\<close> each. When every reverse luminance is the
  double nearest to \<open>0.3605\<close>, each relative error is the double
  \<open>63.949999999999996\<close> and the mean of the five is the double \<open>63.95\<close>, above the
  maximum: the check prints \<^verbatim>\<open>63.9\<close>, \<^verbatim>\<open>64.0\<close> and \<^verbatim>\<open>63.9\<close> as minimum, mean and
  maximum. When every reverse luminance is the double nearest to \<open>0.3635\<close>, each
  relative error is \<open>63.650000000000006\<close> and the mean is \<open>63.65\<close>, below the minimum:
  the check prints \<^verbatim>\<open>63.7\<close>, \<^verbatim>\<open>63.6\<close> and \<^verbatim>\<open>63.7\<close>.
\<close>

theorem mean_outside_extremes:
  "checkReciprocity_dbl rnd64 above_lib ''Front Refl'' 1 1 five_bsdf F_MATRIX =
     Inr ([[Txt ''Front Refl'', Num (9000162380323225 / 2 ^ 47),
            Num (4500081190161613 / 2 ^ 46), Num (9000162380323225 / 2 ^ 47)]],
          [((9 / 2, 0, - 1), (1 / 2, 0, 1)),
           ((7 / 2, 0, - 1), (1 / 2, 0, 1)),
           ((5 / 2, 0, - 1), (1 / 2, 0, 1)),
           ((3 / 2, 0, - 1), (1 / 2, 0, 1)),
           ((1 / 2, 0, - 1), (1 / 2, 0, 1))]) \<and>
   (9000162380323225 / 2 ^ 47 :: real) < 4500081190161613 / 2 ^ 46 \<and>
   printf_1f (9000162380323225 / 2 ^ 47) = 639 \<and>
   printf_1f (4500081190161613 / 2 ^ 46) = 640 \<and>
   checkReciprocity_dbl rnd64 below_lib ''Front Refl'' 1 1 five_bsdf F_MATRIX =
     Inr ([[Txt ''Front Refl'', Num (2239485283454157 / 2 ^ 45),
            Num (8957941133816627 / 2 ^ 47), Num (2239485283454157 / 2 ^ 45)]],
          [((9 / 2, 0, - 1), (1 / 2, 0, 1)),
           ((7 / 2, 0, - 1), (1 / 2, 0, 1)),
           ((5 / 2, 0, - 1), (1 / 2, 0, 1)),
           ((3 / 2, 0, - 1), (1 / 2, 0, 1)),
           ((1 / 2, 0, - 1), (1 / 2, 0, 1))]) \<and>
   (8957941133816627 / 2 ^ 47 :: real) < 2239485283454157 / 2 ^ 45 \<and>
   printf_1f (2239485283454157 / 2 ^ 45) = 637 \<and>
   printf_1f (8957941133816627 / 2 ^ 47) = 636"
  by (intro conjI above_check below_check printed_tenths) simp_all

text \<open>
  Claim C6, as amended. Let the bin pairs be visited in any order \<open>ps\<close> that is a
  permutation of the order of the two loops, each pair being treated as the loops
  treat it, in double precision with any rounding function. Then the lines written to
  \<^verbatim>\<open>stdout\<close> are those of the check in everything but the mean: the same minimum and
  maximum, the same line of zeros, or nothing at all when an evaluation fails. The
  mean is not part of the statement: the rounded sum of the errors depends on the
  order in which they are added, as the run after the theorem shows.
\<close>

theorem extremes_order_independent:
  "operative bsdf side1 side2 = Some d \<and> dist_ptr (comp0 d) = MtxData m \<and>
   fl AND F_MATRIX \<noteq> 0 \<and> mset ps = mset (bin_pairs m) \<longrightarrow>
     (\<exists>out qs out' qs'.
        checkReciprocity_dbl R L nm side1 side2 bsdf fl = Inr (out, qs) \<and>
        report_dbl R nm (visit_all_dbl R L m bsdf ps (init_locals L)) = (out', qs') \<and>
        map drop_mean out' = map drop_mean out)"
proof (intro impI)
  assume a: "operative bsdf side1 side2 = Some d \<and> dist_ptr (comp0 d) = MtxData m \<and>
    fl AND F_MATRIX \<noteq> 0 \<and> mset ps = mset (bin_pairs m)"
  define r where
    "r = report_dbl R nm (run_dbl R L m bsdf (tested_pairs L m (bin_pairs m)) (init_locals L))"
  define r' where "r' = report_dbl R nm (visit_all_dbl R L m bsdf ps (init_locals L))"
  from a have "mset (tested_pairs L m ps) = mset (tested_pairs L m (bin_pairs m))"
    by (simp add: mset_tested_pairs)
  then have "map drop_mean (fst r') = map drop_mean (fst r)"
    unfolding r_def r'_def visit_all_dbl_run by (rule run_dbl_permuted)
  moreover from a have "checkReciprocity_dbl R L nm side1 side2 bsdf fl = Inr r"
    by (simp add: check_matrix_dbl r_def)
  ultimately have "checkReciprocity_dbl R L nm side1 side2 bsdf fl = Inr (fst r, snd r) \<and>
      r' = (fst r', snd r') \<and> map drop_mean (fst r') = map drop_mean (fst r)"
    by simp
  then show "\<exists>out qs out' qs'.
        checkReciprocity_dbl R L nm side1 side2 bsdf fl = Inr (out, qs) \<and>
        report_dbl R nm (visit_all_dbl R L m bsdf ps (init_locals L)) = (out', qs') \<and>
        map drop_mean out' = map drop_mean out"
    unfolding r'_def by blast
qed

theorem extremes_order_independent_witness:
  "operative three_bsdf 1 1 = Some three_df \<and>
   dist_ptr (comp0 three_df) = MtxData three_mat \<and>
   F_MATRIX AND F_MATRIX \<noteq> 0 \<and>
   mset [(0, 0), (0, 1), (0, 2)] = mset (bin_pairs three_mat) \<and>
   (\<exists>out qs out' qs'.
      checkReciprocity_dbl rnd64 three_lib ''Front Refl'' 1 1 three_bsdf F_MATRIX =
        Inr (out, qs) \<and>
      report_dbl rnd64 ''Front Refl''
        (visit_all_dbl rnd64 three_lib three_mat three_bsdf [(0, 0), (0, 1), (0, 2)]
           (init_locals three_lib)) = (out', qs') \<and>
      map drop_mean out' = map drop_mean out \<and>
      map drop_mean out =
        [[Txt ''Front Refl'', Num (2533274790395903 / 2 ^ 48),
          Num (5629499534213119 / 2 ^ 49)]])"
proof -
  have p: "mset [(0, 0), (0, 1), (0, 2)] = mset (bin_pairs three_mat)"
    by (simp add: three_bin_pairs)
  note h = conjI [OF three_operative(1) conjI [OF three_operative(2) conjI [OF word_facts(4) p]]]
  from extremes_order_independent
    [where R = rnd64 and L = three_lib and nm = "''Front Refl''", THEN mp, OF h]
  obtain out qs out' qs' where
    c: "checkReciprocity_dbl rnd64 three_lib ''Front Refl'' 1 1 three_bsdf F_MATRIX =
        Inr (out, qs)" and
    r: "report_dbl rnd64 ''Front Refl''
        (visit_all_dbl rnd64 three_lib three_mat three_bsdf [(0, 0), (0, 1), (0, 2)]
           (init_locals three_lib)) = (out', qs')" and
    e: "map drop_mean out' = map drop_mean out"
    by blast
  from c [unfolded three_check]
  have o: "out = [[Txt ''Front Refl'', Num (2533274790395903 / 2 ^ 48),
      Num (5432467050515661 / 2 ^ 49), Num (5629499534213119 / 2 ^ 49)]]"
    by simp
  have d: "map drop_mean out =
      [[Txt ''Front Refl'', Num (2533274790395903 / 2 ^ 48),
        Num (5629499534213119 / 2 ^ 49)]]"
    unfolding o by simp
  have "\<exists>out qs out' qs'.
      checkReciprocity_dbl rnd64 three_lib ''Front Refl'' 1 1 three_bsdf F_MATRIX =
        Inr (out, qs) \<and>
      report_dbl rnd64 ''Front Refl''
        (visit_all_dbl rnd64 three_lib three_mat three_bsdf [(0, 0), (0, 1), (0, 2)]
           (init_locals three_lib)) = (out', qs') \<and>
      map drop_mean out' = map drop_mean out \<and>
      map drop_mean out =
        [[Txt ''Front Refl'', Num (2533274790395903 / 2 ^ 48),
          Num (5629499534213119 / 2 ^ 49)]]"
    by (intro exI conjI, rule c, rule r, rule e, rule d)
  with h show ?thesis
    by (elim conjE, intro conjI) assumption+
qed

text \<open>
  A run in which the printed mean depends on the order. The three tested pairs have
  the relative errors \<open>9.999999999999998\<close>, \<open>9.950000000000003\<close> and
  \<open>8.999999999999996\<close> for the outgoing bins \<open>2\<close>, \<open>1\<close> and \<open>0\<close>. Added in the order of
  the loops, from bin \<open>2\<close> down to bin \<open>0\<close>, they give the mean \<open>9.65\<close> and the check
  prints \<^verbatim>\<open>9.0\<close>, \<^verbatim>\<open>9.7\<close> and \<^verbatim>\<open>10.0\<close>; added from bin \<open>0\<close> up to bin \<open>2\<close> they give the
  mean \<open>9.649999999999999\<close>, printed as \<^verbatim>\<open>9.6\<close>.
\<close>

theorem mean_order_dependent:
  "mset [(0, 0), (0, 1), (0, 2)] = mset (bin_pairs three_mat) \<and>
   checkReciprocity_dbl rnd64 three_lib ''Front Refl'' 1 1 three_bsdf F_MATRIX =
     Inr ([[Txt ''Front Refl'', Num (2533274790395903 / 2 ^ 48),
            Num (5432467050515661 / 2 ^ 49), Num (5629499534213119 / 2 ^ 49)]],
          [((5 / 2, 0, - 1), (1 / 2, 0, 1)),
           ((3 / 2, 0, - 1), (1 / 2, 0, 1)),
           ((1 / 2, 0, - 1), (1 / 2, 0, 1))]) \<and>
   report_dbl rnd64 ''Front Refl''
     (visit_all_dbl rnd64 three_lib three_mat three_bsdf [(0, 0), (0, 1), (0, 2)]
        (init_locals three_lib)) =
     ([[Txt ''Front Refl'', Num (2533274790395903 / 2 ^ 48),
        Num (1358116762628915 / 2 ^ 47), Num (5629499534213119 / 2 ^ 49)]],
      [((1 / 2, 0, - 1), (1 / 2, 0, 1)),
           ((3 / 2, 0, - 1), (1 / 2, 0, 1)),
           ((5 / 2, 0, - 1), (1 / 2, 0, 1))]) \<and>
   (1358116762628915 / 2 ^ 47 :: real) < 5432467050515661 / 2 ^ 49 \<and>
   printf_1f (5432467050515661 / 2 ^ 49) = 97 \<and>
   printf_1f (1358116762628915 / 2 ^ 47) = 96"
  by (intro conjI three_check three_ascending printed_tenths) (simp_all add: three_bin_pairs)




end
